(* ===== verification/Prelude.thy ===== *)
theory Prelude
  imports Main
begin

text \<open>
  Shared vocabulary of the development: the names of the model's basic types, the
  theorem collections the component theories fill, and generic facts on characters,
  lists and options that several components use. Nothing here is specific to the
  registration form.
\<close>

section \<open>Theorem collections\<close>

named_theorems rx_eval
  "definitions unfolded to evaluate a regular expression of the form on a concrete string"

named_theorems form_eval
  "definitions unfolded to evaluate a form scenario on concrete field values"

section \<open>Types of the model\<close>

text \<open>
  A JavaScript string is modelled as a list of \<open>char\<close>, one \<open>char\<close> per UTF-16 code
  unit; the model covers the code units 0 to 255 (Latin-1), which is what the type
  \<open>char\<close> can hold.
\<close>

type_synonym js_string = string

abbreviation code_unit :: "char \<Rightarrow> nat" where
  "code_unit c \<equiv> of_char c"

text \<open>
  A plain JavaScript object whose properties are strings, as an association list in
  property-creation order (the order \<open>JSON.stringify\<close> and object spread follow).
\<close>

type_synonym js_object = "(js_string \<times> js_string) list"

text \<open>An optional upper bound, as a quantifier's \<open>max\<close> (\<open>None\<close> is unbounded).\<close>

definition within_max :: "nat option \<Rightarrow> nat \<Rightarrow> bool" where
  "within_max mx k \<longleftrightarrow> (case mx of None \<Rightarrow> True | Some b \<Rightarrow> k \<le> b)"

section \<open>Characters\<close>

lemma code_unit_char_of [simp]:
  "n < 256 \<Longrightarrow> code_unit (char_of n) = n"
  by simp

lemma char_of_inj_below_256 [simp]:
  "(m :: nat) < 256 \<Longrightarrow> (n :: nat) < 256 \<Longrightarrow> (char_of m = (char_of n :: char)) \<longleftrightarrow> m = n"
  by simp

lemma code_unit_minus_less [simp]:
  "code_unit c - k < 256"
  using nat_of_char_less_256 [of c] by arith

lemma code_unit_eq_imp_char_of:
  "code_unit ch = k \<Longrightarrow> ch = char_of k"
  by auto

lemma char_eq_iff_code_unit:
  "(a = b) \<longleftrightarrow> code_unit a = code_unit b"
  by simp

lemma eq_char_of_iff [form_eval]:
  "(c = char_of n) \<longleftrightarrow> take_bit 8 n = of_char c"
  by (subst eq_commute) (simp add: char_of_eq_iff)

section \<open>Lists\<close>

lemma append_eq_append_same_length:
  "length p = length q \<Longrightarrow> p @ s = q @ t \<longleftrightarrow> p = q \<and> s = t"
  by simp

lemma drop_length_append [simp]:
  "drop (length p) (p @ s) = s"
  by simp

lemma length_le_one_cases:
  "length p \<le> 1 \<longleftrightarrow> p = [] \<or> (\<exists>c. p = [c])"
  by (cases p) auto

lemma exists_split_Cons:
  "(\<exists>p. c # s = p @ t \<and> P p) \<longleftrightarrow> (c # s = t \<and> P []) \<or> (\<exists>p'. s = p' @ t \<and> P (c # p'))"
  by (auto simp: Cons_eq_append_conv)

section \<open>Options\<close>

lemma within_max_simps [simp]:
  "within_max None k"
  "within_max (Some b) k \<longleftrightarrow> k \<le> b"
  by (simp_all add: within_max_def)

end
