(* ===== verification/JsLib.thy ===== *)
theory JsLib
  imports Prelude
begin

text \<open>
  The JavaScript runtime operations the form's code calls, modelled from ECMA-262:
  \<open>String.prototype.padStart\<close>, the conversion of an integer to its decimal string
  (\<open>String(n)\<close>, template literals), the creation, update and deletion of the
  properties of a plain object, and the truthiness of a string (\<open>||\<close>, \<open>&&\<close>).
  A decimal parser is the inverse the round-trip lemmas use: it is what a reader of
  the form's output (the server) applies.
\<close>

section \<open>Strings\<close>

definition is_decimal_digit :: "char \<Rightarrow> bool" where
  "is_decimal_digit ch \<longleftrightarrow> 48 \<le> code_unit ch \<and> code_unit ch \<le> 57"

text \<open>
  \<open>StringPad(S, maxLength, fillString, start)\<close>: nothing to do when \<open>S\<close> is long
  enough or the filler is empty; otherwise the filler is repeated and truncated to the
  missing length and put in front.
\<close>

definition pad_start :: "nat \<Rightarrow> js_string \<Rightarrow> js_string \<Rightarrow> js_string" where
  "pad_start max_len fill s =
     (if max_len \<le> length s \<or> fill = [] then s
      else take (max_len - length s) (concat (replicate (max_len - length s) fill)) @ s)"

definition digit_char :: "nat \<Rightarrow> char" where
  "digit_char d = char_of (48 + d)"

text \<open>\<open>Number::toString\<close> on a non-negative integer: its decimal digits, no leading zero.\<close>

fun nat_str :: "nat \<Rightarrow> js_string" where
  "nat_str n = (if n < 10 then [digit_char n] else nat_str (n div 10) @ [digit_char (n mod 10)])"

declare nat_str.simps [simp del]

definition int_str :: "int \<Rightarrow> js_string" where
  "int_str i = (if i < 0 then CHR ''-'' # nat_str (nat (- i)) else nat_str (nat i))"

definition js_truthy :: "js_string \<Rightarrow> bool" where
  "js_truthy s \<longleftrightarrow> s \<noteq> []"

definition digit_value :: "char \<Rightarrow> nat" where
  "digit_value ch = code_unit ch - 48"

definition parse_decimal :: "js_string \<Rightarrow> nat option" where
  "parse_decimal s =
     (if s \<noteq> [] \<and> (\<forall>ch\<in>set s. is_decimal_digit ch)
      then Some (foldl (\<lambda>acc ch. 10 * acc + digit_value ch) 0 s) else None)"

section \<open>Objects\<close>

text \<open>
  Property lookup, \<open>CreateDataProperty\<close> (an existing key keeps its position, a new
  one goes last) and the \<open>delete\<close> operator.
\<close>

definition obj_get :: "js_object \<Rightarrow> js_string \<Rightarrow> js_string option" where
  "obj_get ob k = map_of ob k"

definition obj_set :: "js_string \<Rightarrow> js_string \<Rightarrow> js_object \<Rightarrow> js_object" where
  "obj_set k v ob =
     (if k \<in> set (map fst ob) then map (\<lambda>(k', v'). (k', if k' = k then v else v')) ob
      else ob @ [(k, v)])"

definition obj_delete :: "js_string \<Rightarrow> js_object \<Rightarrow> js_object" where
  "obj_delete k ob = filter (\<lambda>(k', v'). k' \<noteq> k) ob"

section \<open>Lemmas\<close>

declare is_decimal_digit_def [form_eval] pad_start_def [form_eval] digit_char_def [form_eval]
  nat_str.simps [form_eval] int_str_def [form_eval] js_truthy_def [form_eval]
  obj_get_def [form_eval] obj_set_def [form_eval] obj_delete_def [form_eval]
  char_of_eq_iff [form_eval]

subsection \<open>Padding\<close>

lemma pad_start_single:
  "pad_start max_len [c] s = replicate (max_len - length s) c @ s"
proof (cases "max_len \<le> length s")
  case False
  have "take k (concat (replicate k [c])) = replicate k c" for k
    by (induction k) auto
  with False show ?thesis by (simp add: pad_start_def)
qed (simp add: pad_start_def)

lemma length_pad_start_single:
  "length (pad_start max_len [c] s) = max max_len (length s)"
  by (simp add: pad_start_single)

subsection \<open>Decimal strings\<close>

lemma digit_char_is_digit:
  "d < 10 \<Longrightarrow> is_decimal_digit (digit_char d)"
  by (simp add: digit_char_def is_decimal_digit_def)

lemma digit_value_digit_char:
  "d < 10 \<Longrightarrow> digit_value (digit_char d) = d"
  by (simp add: digit_char_def digit_value_def)

lemma nat_str_nonempty:
  "nat_str n \<noteq> []"
  by (subst nat_str.simps) simp

lemma nat_str_digits:
  "\<forall>ch\<in>set (nat_str n). is_decimal_digit ch"
proof (induction n rule: nat_str.induct)
  case (1 n)
  then show ?case
    by (subst nat_str.simps) (auto simp: digit_char_is_digit)
qed

lemma nat_str_value:
  "foldl (\<lambda>acc ch. 10 * acc + digit_value ch) 0 (nat_str n) = n"
proof (induction n rule: nat_str.induct)
  case (1 n)
  then show ?case
    by (subst nat_str.simps) (simp add: digit_value_digit_char)
qed

lemma length_nat_str:
  "length (nat_str n) = (if n < 10 then 1 else Suc (length (nat_str (n div 10))))"
  by (subst nat_str.simps) simp

lemma length_nat_str_four:
  assumes "1000 \<le> n" "n < 10000"
  shows "length (nat_str n) = 4"
proof -
  have "n div 10 div 10 = n div 100" "n div 10 div 10 div 10 = n div 1000"
    by (simp_all add: div_mult2_eq [symmetric])
  moreover have "\<not> n < 10" "\<not> n div 10 < 10" "\<not> n div 100 < 10" "n div 1000 < 10"
    using assms by (simp_all add: div_less_iff_less_mult)
  ultimately show ?thesis by (simp add: length_nat_str)
qed

lemma length_nat_str_le_two:
  assumes "n < 100"
  shows "length (nat_str n) \<le> 2"
proof -
  have "n div 10 < 10" using assms by (simp add: div_less_iff_less_mult)
  then show ?thesis by (simp add: length_nat_str)
qed

text \<open>Printing a number and parsing it back gives the number.\<close>

lemma parse_decimal_nat_str:
  "parse_decimal (nat_str n) = Some n"
  by (simp add: parse_decimal_def nat_str_nonempty nat_str_digits nat_str_value)

lemma pad_start_pad_start:
  "pad_start w [c] (pad_start w [c] s) = pad_start w [c] s"
  by (simp add: pad_start_single)

lemma parse_decimal_replicate_zero:
  "s \<noteq> [] \<Longrightarrow> parse_decimal (replicate k CHR ''0'' @ s) = parse_decimal s"
proof -
  have zero: "digit_value CHR ''0'' = 0" "is_decimal_digit CHR ''0''"
    by (simp_all add: digit_value_def is_decimal_digit_def)
  have "foldl (\<lambda>acc ch. 10 * acc + digit_value ch) 0 (replicate k CHR ''0'') = 0"
    by (induction k) (simp_all add: zero)
  then show "s \<noteq> [] \<Longrightarrow> ?thesis"
    by (cases k) (auto simp: parse_decimal_def zero)
qed

lemma parse_decimal_pad_nat_str:
  "parse_decimal (pad_start w ''0'' (nat_str n)) = Some n"
  by (simp add: pad_start_single parse_decimal_replicate_zero nat_str_nonempty parse_decimal_nat_str)

lemma nat_str_inj:
  "nat_str m = nat_str n \<longleftrightarrow> m = n"
  by (metis option.inject parse_decimal_nat_str)

subsection \<open>Objects\<close>

lemma obj_get_delete:
  "obj_get (obj_delete k ob) k' = (if k' = k then None else obj_get ob k')"
  by (induction ob) (auto simp: obj_get_def obj_delete_def)

lemma map_of_update_existing:
  "map_of (map (\<lambda>(a, b). (a, if a = k then v else b)) ob) x =
     (if x = k \<and> map_of ob x \<noteq> None then Some v else map_of ob x)"
  by (induction ob) auto

lemma obj_get_obj_set:
  "obj_get (obj_set k v ob) k' = (if k' = k then Some v else obj_get ob k')"
proof (cases "k \<in> set (map fst ob)")
  case True
  then have "map_of ob k \<noteq> None" by (simp add: map_of_eq_None_iff)
  with True show ?thesis by (simp add: obj_set_def obj_get_def map_of_update_existing)
next
  case False
  then have "map_of ob k = None" by (simp add: map_of_eq_None_iff)
  with False show ?thesis by (auto simp: obj_set_def obj_get_def map_add_def split: option.split)
qed

lemma keys_obj_set:
  "map fst (obj_set k v ob) = (if k \<in> set (map fst ob) then map fst ob else map fst ob @ [k])"
proof -
  have "map fst (map (\<lambda>(k', v'). (k', if k' = k then v else v')) ob) = map fst ob"
    by (induction ob) auto
  then show ?thesis by (simp add: obj_set_def)
qed

lemma keys_obj_delete:
  "map fst (obj_delete k ob) = filter (\<lambda>k'. k' \<noteq> k) (map fst ob)"
  by (induction ob) (auto simp: obj_delete_def)

end
