(* ===== verification/JsRegex.thy ===== *)
theory JsRegex
  imports JsLib
begin

text \<open>
  The ECMAScript regular-expression engine, for the fragment the registration form's
  patterns use (ECMA-262, section 22.2: character classes, the escapes \<open>\d\<close> and
  \<open>\S\<close>, the dot, groups, greedy quantifiers, the assertions \<open>^\<close> and \<open>$\<close>, positive
  look-ahead and the \<open>i\<close> flag). The engine is the language runtime that
  react-hook-form calls through \<open>RegExp.prototype.test\<close>; it is modelled from the
  standard's matcher semantics:
  \<^item> \<open>rmatch\<close> is the backtracking matcher in continuation-passing style, one equation
    per production, with the repeat matcher's empty-iteration check;
  \<^item> \<open>regexp_exec_from\<close> is the search loop of \<open>RegExpBuiltinExec\<close>, which tries
    every start index;
  \<^item> \<open>consumes\<close> is a declarative matching relation, and \<open>rmatch_iff\<close> proves that
    the backtracking matcher decides exactly it.
  Captures are not modelled: \<open>test\<close> only observes whether a match exists.
\<close>

section \<open>Character sets\<close>

definition is_line_terminator :: "char \<Rightarrow> bool" where
  "is_line_terminator ch \<longleftrightarrow> code_unit ch = 10 \<or> code_unit ch = 13"

text \<open>\<open>WhiteSpace\<close> and \<open>LineTerminator\<close> code units below 256.\<close>

definition is_js_white_space :: "char \<Rightarrow> bool" where
  "is_js_white_space ch \<longleftrightarrow> code_unit ch \<in> {9, 10, 11, 12, 13, 32, 160}"

datatype class_item =
    CChar char
  | CRange char char
  | CDigit
  | CSpace
  | CNotSpace

primrec item_has :: "class_item \<Rightarrow> char \<Rightarrow> bool" where
  "item_has (CChar c) ch \<longleftrightarrow> ch = c"
| "item_has (CRange lo hi) ch \<longleftrightarrow> code_unit lo \<le> code_unit ch \<and> code_unit ch \<le> code_unit hi"
| "item_has CDigit ch \<longleftrightarrow> is_decimal_digit ch"
| "item_has CSpace ch \<longleftrightarrow> is_js_white_space ch"
| "item_has CNotSpace ch \<longleftrightarrow> \<not> is_js_white_space ch"

definition class_has :: "class_item list \<Rightarrow> char \<Rightarrow> bool" where
  "class_has items ch \<longleftrightarrow> (\<exists>it\<in>set items. item_has it ch)"

subsection \<open>Case folding\<close>

text \<open>
  \<open>Canonicalize\<close> without the \<open>u\<close> flag maps a code unit to its upper case unless
  that leaves Latin-1 for ASCII or is not a single code unit. Below 256 this identifies
  exactly the pairs a--z/A--Z and the accented letters U+E0--U+FE (but U+F7) with
  U+C0--U+DE; U+B5 and U+FF map outside Latin-1, where no other code unit below 256
  follows them, so they stay alone here as they do in the engine.
\<close>

definition lower_code :: "nat \<Rightarrow> bool" where
  "lower_code n \<longleftrightarrow> (97 \<le> n \<and> n \<le> 122) \<or> (224 \<le> n \<and> n \<le> 254 \<and> n \<noteq> 247)"

definition upper_code :: "nat \<Rightarrow> bool" where
  "upper_code n \<longleftrightarrow> (65 \<le> n \<and> n \<le> 90) \<or> (192 \<le> n \<and> n \<le> 222 \<and> n \<noteq> 215)"

definition canonicalize :: "bool \<Rightarrow> char \<Rightarrow> char" where
  "canonicalize ic ch =
     (if ic \<and> lower_code (code_unit ch) then char_of (code_unit ch - 32) else ch)"

definition other_case :: "char \<Rightarrow> char" where
  "other_case ch =
     (if lower_code (code_unit ch) then char_of (code_unit ch - 32)
      else if upper_code (code_unit ch) then char_of (code_unit ch + 32) else ch)"

text \<open>
  \<open>CharacterSetMatcher(A, invert)\<close>: the standard's definition quantifies over the set
  (\<open>char_set_spec\<close>); the engine's test looks at the character and its other case
  only (\<open>char_set_matches\<close>). \<open>char_set_matches_spec\<close> proves them equal.
\<close>

definition char_set_spec :: "bool \<Rightarrow> (char \<Rightarrow> bool) \<Rightarrow> bool \<Rightarrow> char \<Rightarrow> bool" where
  "char_set_spec ic A invert ch \<longleftrightarrow>
     (\<exists>a. A a \<and> canonicalize ic a = canonicalize ic ch) \<noteq> invert"

definition char_set_matches :: "bool \<Rightarrow> (char \<Rightarrow> bool) \<Rightarrow> bool \<Rightarrow> char \<Rightarrow> bool" where
  "char_set_matches ic A invert ch \<longleftrightarrow> (A ch \<or> (ic \<and> A (other_case ch))) \<noteq> invert"

section \<open>Syntax\<close>

datatype atom =
    AChar char
  | AClass bool "class_item list"  \<comment> \<open>\<open>[...]\<close>, or \<open>[^...]\<close> when the flag is set\<close>
  | ADot

primrec atom_set :: "atom \<Rightarrow> char \<Rightarrow> bool" where
  "atom_set (AChar c) = (\<lambda>ch. ch = c)"
| "atom_set (AClass neg items) = class_has items"
| "atom_set ADot = (\<lambda>ch. \<not> is_line_terminator ch)"

primrec atom_inverted :: "atom \<Rightarrow> bool" where
  "atom_inverted (AChar c) = False"
| "atom_inverted (AClass neg items) = neg"
| "atom_inverted ADot = False"

definition atom_matches :: "bool \<Rightarrow> atom \<Rightarrow> char \<Rightarrow> bool" where
  "atom_matches ic a ch \<longleftrightarrow> char_set_matches ic (atom_set a) (atom_inverted a) ch"

text \<open>
  \<open>Repeat r min max\<close> is a greedy quantifier (\<open>max = None\<close> is \<open>\<infinity>\<close>): \<open>r?\<close> is
  \<open>Repeat r 0 (Some 1)\<close>, \<open>r+\<close> is \<open>Repeat r 1 None\<close>, \<open>r{n}\<close> is
  \<open>Repeat r n (Some n)\<close> and \<open>r{n,}\<close> is \<open>Repeat r n None\<close>.
\<close>

datatype rexp =
    Empty
  | Atom atom
  | Seq rexp rexp
  | Alt rexp rexp
  | Group rexp
  | Repeat rexp nat "nat option"
  | Bol
  | Eol
  | Look rexp

text \<open>A pattern \<open>t\<^sub>1 t\<^sub>2 \<dots> t\<^sub>n\<close> is the sequence of its terms.\<close>

definition seqs :: "rexp list \<Rightarrow> rexp" where
  "seqs ts = foldr Seq ts Empty"

text \<open>\<open>^t\<^sub>1 \<dots> t\<^sub>n$\<close>, a pattern anchored at both ends (no \<open>m\<close> flag).\<close>

definition anchored :: "rexp list \<Rightarrow> rexp" where
  "anchored ts = seqs (Bol # ts @ [Eol])"

fun repeat_min :: "rexp \<Rightarrow> nat" where
  "repeat_min (Repeat r n mx) = n"
| "repeat_min _ = 0"

text \<open>
  A simple term consumes one piece of the input of a shape fixed by the term alone: a
  single character set, a bounded repetition of one, or a group of either.
  \<open>piece_ok\<close> says which pieces it accepts.
\<close>

fun simple_term :: "rexp \<Rightarrow> bool" where
  "simple_term (Atom a) = True"
| "simple_term (Repeat (Atom a) n mx) = within_max mx n"
| "simple_term (Group r) = simple_term r"
| "simple_term _ = False"

fun piece_ok :: "bool \<Rightarrow> rexp \<Rightarrow> js_string \<Rightarrow> bool" where
  "piece_ok ic (Atom a) p = (\<exists>ch. p = [ch] \<and> atom_matches ic a ch)"
| "piece_ok ic (Repeat (Atom a) n mx) p =
     (n \<le> length p \<and> within_max mx (length p) \<and> (\<forall>ch\<in>set p. atom_matches ic a ch))"
| "piece_ok ic (Group r) p = piece_ok ic r p"
| "piece_ok ic _ p = False"

section \<open>The backtracking matcher\<close>

text \<open>
  A match state is the end index reached and the input that follows it. A matcher
  takes a state and a continuation and succeeds if some way of matching hands the
  continuation a state it accepts. The \<open>Repeat\<close> equation is \<open>RepeatMatcher\<close>: no
  iteration once \<open>max\<close> is reached; an iteration that matched the empty string after
  \<open>min\<close> is reached fails; otherwise a greedy quantifier first tries one more
  iteration and then the continuation. The empty-iteration check compares the lengths of
  the remaining inputs, which \<open>consumes_advance\<close> shows is the standard's comparison
  of end indices.
\<close>

type_synonym mstate = "nat \<times> js_string"

function rmatch :: "bool \<Rightarrow> rexp \<Rightarrow> mstate \<Rightarrow> (mstate \<Rightarrow> bool) \<Rightarrow> bool" where
  "rmatch ic Empty x c = c x"
| "rmatch ic (Atom a) x c =
     (case snd x of
        [] \<Rightarrow> False
      | ch # rest \<Rightarrow> atom_matches ic a ch \<and> c (Suc (fst x), rest))"
| "rmatch ic (Seq r1 r2) x c = rmatch ic r1 x (\<lambda>y. rmatch ic r2 y c)"
| "rmatch ic (Alt r1 r2) x c = (rmatch ic r1 x c \<or> rmatch ic r2 x c)"
| "rmatch ic (Group r) x c = rmatch ic r x c"
| "rmatch ic (Repeat r n mx) x c =
     (if mx = Some 0 then c x
      else
        (let d = (\<lambda>y. if n = 0 \<and> length (snd x) \<le> length (snd y) then False
                      else rmatch ic (Repeat r (n - 1) (map_option (\<lambda>k. k - 1) mx)) y c)
         in if n \<noteq> 0 then rmatch ic r x d else (rmatch ic r x d \<or> c x)))"
| "rmatch ic Bol x c = (fst x = 0 \<and> c x)"
| "rmatch ic Eol x c = (snd x = [] \<and> c x)"
| "rmatch ic (Look r) x c = (rmatch ic r x (\<lambda>_. True) \<and> c x)"
  by pat_completeness auto
termination
  by (relation "measures [\<lambda>(ic, r, x, c). size r, \<lambda>(ic, r, x, c). repeat_min r,
                          \<lambda>(ic, r, x, c). length (snd x)]") auto

text \<open>
  \<open>RegExpBuiltinExec\<close> for a pattern without the \<open>g\<close> and \<open>y\<close> flags: starting at
  index 0, run the matcher, and on failure advance the index by one until it passes the
  end of the input. \<open>RegExp.prototype.test\<close> reports whether a match was found.
  The standard writes the search as an unbounded \<open>Repeat\<close> loop, so it is modelled as
  a \<open>partial_function (option)\<close>: \<open>None\<close> would be a search that never ends, and
  \<open>regexp_exec_from_iff\<close> shows that it always returns.
\<close>

partial_function (option) regexp_exec_from :: "bool \<Rightarrow> rexp \<Rightarrow> js_string \<Rightarrow> nat \<Rightarrow> bool option" where
  "regexp_exec_from ic r w i =
     (if length w < i then Some False
      else if rmatch ic r (i, drop i w) (\<lambda>_. True) then Some True
      else regexp_exec_from ic r w (Suc i))"

definition regexp_test :: "bool \<Rightarrow> rexp \<Rightarrow> js_string \<Rightarrow> bool" where
  "regexp_test ic r w \<longleftrightarrow> regexp_exec_from ic r w 0 = Some True"

section \<open>The matching relation\<close>

inductive consumes :: "bool \<Rightarrow> rexp \<Rightarrow> mstate \<Rightarrow> mstate \<Rightarrow> bool" for ic :: bool where
  cons_empty: "consumes ic Empty x x"
| cons_atom: "atom_matches ic a ch \<Longrightarrow> consumes ic (Atom a) (i, ch # rest) (Suc i, rest)"
| cons_seq: "consumes ic r1 x y \<Longrightarrow> consumes ic r2 y z \<Longrightarrow> consumes ic (Seq r1 r2) x z"
| cons_alt1: "consumes ic r1 x y \<Longrightarrow> consumes ic (Alt r1 r2) x y"
| cons_alt2: "consumes ic r2 x y \<Longrightarrow> consumes ic (Alt r1 r2) x y"
| cons_group: "consumes ic r x y \<Longrightarrow> consumes ic (Group r) x y"
| cons_rep_stop: "mx = Some 0 \<or> n = 0 \<Longrightarrow> consumes ic (Repeat r n mx) x x"
| cons_rep_step: "mx \<noteq> Some 0 \<Longrightarrow> consumes ic r x y \<Longrightarrow>
    n \<noteq> 0 \<or> length (snd y) < length (snd x) \<Longrightarrow>
    consumes ic (Repeat r (n - 1) (map_option (\<lambda>k. k - 1) mx)) y z \<Longrightarrow>
    consumes ic (Repeat r n mx) x z"
| cons_bol: "fst x = 0 \<Longrightarrow> consumes ic Bol x x"
| cons_eol: "snd x = [] \<Longrightarrow> consumes ic Eol x x"
| cons_look: "consumes ic r x y \<Longrightarrow> consumes ic (Look r) x x"

inductive_simps consumes_Empty [simp]: "consumes ic Empty x y"
inductive_simps consumes_Atom: "consumes ic (Atom a) x y"
inductive_simps consumes_Seq [simp]: "consumes ic (Seq r1 r2) x z"
inductive_simps consumes_Alt [simp]: "consumes ic (Alt r1 r2) x y"
inductive_simps consumes_Group [simp]: "consumes ic (Group r) x y"
inductive_simps consumes_Repeat: "consumes ic (Repeat r n mx) x z"
inductive_simps consumes_Bol [simp]: "consumes ic Bol x y"
inductive_simps consumes_Eol [simp]: "consumes ic Eol x y"
inductive_simps consumes_Look [simp]: "consumes ic (Look r) x y"

section \<open>Properties of the engine\<close>

declare is_line_terminator_def [rx_eval] is_js_white_space_def [rx_eval]
  class_has_def [rx_eval] is_decimal_digit_def [rx_eval] lower_code_def [rx_eval]
  upper_code_def [rx_eval] other_case_def [rx_eval] char_set_matches_def [rx_eval]
  atom_matches_def [rx_eval] seqs_def [rx_eval] anchored_def [rx_eval] regexp_test_def [rx_eval]
  regexp_exec_from.simps [rx_eval]

subsection \<open>Inversion of the matching relation\<close>

lemma consumes_Atom_iff:
  "consumes ic (Atom a) x y \<longleftrightarrow>
     (\<exists>ch rest. snd x = ch # rest \<and> y = (Suc (fst x), rest) \<and> atom_matches ic a ch)"
  by (cases x) (simp add: consumes_Atom)

lemma consumes_Repeat_iff:
  "consumes ic (Repeat r n mx) x z \<longleftrightarrow>
     ((mx = Some 0 \<or> n = 0) \<and> z = x) \<or>
     (mx \<noteq> Some 0 \<and> (\<exists>y. consumes ic r x y \<and> (n \<noteq> 0 \<or> length (snd y) < length (snd x)) \<and>
        consumes ic (Repeat r (n - 1) (map_option (\<lambda>k. k - 1) mx)) y z))"
proof
  assume "consumes ic (Repeat r n mx) x z"
  then show "((mx = Some 0 \<or> n = 0) \<and> z = x) \<or>
     (mx \<noteq> Some 0 \<and> (\<exists>y. consumes ic r x y \<and> (n \<noteq> 0 \<or> length (snd y) < length (snd x)) \<and>
        consumes ic (Repeat r (n - 1) (map_option (\<lambda>k. k - 1) mx)) y z))"
    by (cases rule: consumes.cases) blast+
qed (blast intro: consumes.intros)

subsection \<open>The matcher decides the matching relation\<close>

text \<open>
  The backtracking matcher with continuation \<open>c\<close> succeeds exactly when some state
  the relation reaches is accepted by \<open>c\<close>: computation induction over \<open>rmatch\<close>,
  one case per production.
\<close>

lemma rmatch_iff: "rmatch ic r x c \<longleftrightarrow> (\<exists>y. consumes ic r x y \<and> c y)"
proof (induction ic r x c rule: rmatch.induct)
  case (1 ic x c)
  then show ?case by simp
next
  case (2 ic a x c)
  then show ?case by (simp add: consumes_Atom_iff split: list.split)
next
  case (3 ic r1 r2 x c)
  then show ?case by (simp, blast)
next
  case (4 ic r1 r2 x c)
  then show ?case by (simp, blast)
next
  case (5 ic r x c)
  then show ?case by simp
next
  case (6 ic r n mx x c)
  show ?case
  proof (cases "mx = Some 0")
    case True
    then show ?thesis unfolding consumes_Repeat_iff [of ic r n mx x] by simp
  next
    case False
    define d where "d = (\<lambda>y. if n = 0 \<and> length (snd x) \<le> length (snd y) then False
                else rmatch ic (Repeat r (n - 1) (map_option (\<lambda>k. k - 1) mx)) y c)"
    have IHr: "rmatch ic r x d \<longleftrightarrow> (\<exists>y. consumes ic r x y \<and> d y)"
      using "6.IH"(2,3)[OF False d_def] by (cases "n = 0") (simp_all del: rmatch.simps)
    have IHrep: "d y \<longleftrightarrow> (n \<noteq> 0 \<or> length (snd y) < length (snd x)) \<and>
        (\<exists>z. consumes ic (Repeat r (n - 1) (map_option (\<lambda>k. k - 1) mx)) y z \<and> c z)" for y
      using "6.IH"(1)[OF False, of y] unfolding d_def by (simp del: rmatch.simps add: not_le)
    have eq: "rmatch ic (Repeat r n mx) x c = (if n \<noteq> 0 then rmatch ic r x d else (rmatch ic r x d \<or> c x))"
      unfolding d_def by (subst rmatch.simps(6)) (simp only: False Let_def if_False)
    let ?rep = "Repeat r (n - 1) (map_option (\<lambda>k. k - 1) mx)"
    have rhs: "(\<exists>z. consumes ic (Repeat r n mx) x z \<and> c z) \<longleftrightarrow>
        (\<exists>y. consumes ic r x y \<and> (n \<noteq> 0 \<or> length (snd y) < length (snd x)) \<and>
          (\<exists>z. consumes ic ?rep y z \<and> c z)) \<or> (n = 0 \<and> c x)"
      unfolding consumes_Repeat_iff [of ic r n mx x] using False by blast
    have lhs: "rmatch ic r x d \<longleftrightarrow> (\<exists>y. consumes ic r x y \<and> (n \<noteq> 0 \<or> length (snd y) < length (snd x)) \<and>
          (\<exists>z. consumes ic ?rep y z \<and> c z))"
      unfolding IHr IHrep by blast
    show ?thesis
      unfolding eq rhs lhs by simp
  qed
next
  case (7 ic x c)
  then show ?case by simp
next
  case (8 ic x c)
  then show ?case by simp
next
  case (9 ic r x c)
  then show ?case by simp
qed

subsection \<open>States only advance; the search loop; anchored patterns\<close>

lemma consumes_advance:
  "consumes ic r x y \<Longrightarrow> \<exists>p. snd x = p @ snd y \<and> fst y = fst x + length p"
proof (induction rule: consumes.induct)
  case (cons_atom a ch i rest)
  then show ?case by (intro exI [of _ "[ch]"]) simp
next
  case (cons_seq r1 x y r2 z)
  then show ?case by (metis add.assoc append.assoc length_append)
next
  case (cons_rep_step mx r x y n z)
  then show ?case by (metis add.assoc append.assoc length_append)
qed auto

lemma consumes_seqs_Nil [simp]:
  "consumes ic (seqs []) x y \<longleftrightarrow> y = x"
  by (simp add: seqs_def)

lemma consumes_seqs_Cons [simp]:
  "consumes ic (seqs (t # ts)) x z \<longleftrightarrow> (\<exists>y. consumes ic t x y \<and> consumes ic (seqs ts) y z)"
  by (simp add: seqs_def)

lemma consumes_seqs_append:
  "consumes ic (seqs (ts @ us)) x z \<longleftrightarrow> (\<exists>y. consumes ic (seqs ts) x y \<and> consumes ic (seqs us) y z)"
  by (induction ts arbitrary: x) auto

lemma regexp_exec_from_iff:
  "regexp_exec_from ic r w i = Some (\<exists>j. i \<le> j \<and> j \<le> length w \<and> (\<exists>y. consumes ic r (j, drop j w) y))"
proof (induction "Suc (length w) - i" arbitrary: i)
  case 0
  then show ?case by (simp add: regexp_exec_from.simps [of ic r w i])
next
  case (Suc n)
  let ?M = "\<lambda>j. \<exists>y. consumes ic r (j, drop j w) y"
  have le: "i \<le> length w" using Suc.hyps(2) by simp
  have unfold: "regexp_exec_from ic r w i = (if ?M i then Some True else regexp_exec_from ic r w (Suc i))"
    using le by (simp add: regexp_exec_from.simps [of ic r w i] rmatch_iff del: rmatch.simps)
  have IH: "regexp_exec_from ic r w (Suc i) = Some (\<exists>j. Suc i \<le> j \<and> j \<le> length w \<and> ?M j)"
    using Suc.hyps by (intro Suc.hyps(1)) simp
  show ?case
  proof (cases "?M i")
    case True
    with le unfold show ?thesis by auto
  next
    case noM: False
    have "(\<exists>j. i \<le> j \<and> j \<le> length w \<and> ?M j) \<longleftrightarrow> (\<exists>j. Suc i \<le> j \<and> j \<le> length w \<and> ?M j)"
      using noM by (metis Suc_leI le_neq_implies_less Suc_leD)
    with IH noM unfold show ?thesis by simp
  qed
qed

lemma regexp_test_iff:
  "regexp_test ic r w \<longleftrightarrow> (\<exists>j \<le> length w. \<exists>y. consumes ic r (j, drop j w) y)"
  by (simp add: regexp_test_def regexp_exec_from_iff)

lemma regexp_test_anchored:
  "regexp_test ic (anchored ts) w \<longleftrightarrow> consumes ic (seqs ts) (0, w) (length w, [])"
proof -
  have "consumes ic (seqs ts) (0, w) y \<Longrightarrow> snd y = [] \<Longrightarrow> y = (length w, [])" for y
    by (cases y) (auto dest: consumes_advance)
  then show ?thesis
    by (auto simp: anchored_def regexp_test_iff consumes_seqs_append)
qed

subsection \<open>Bounded repetition of one character set\<close>

lemma consumes_Repeat_Atom_dest:
  "consumes ic R x y \<Longrightarrow> R = Repeat (Atom a) n mx \<Longrightarrow> within_max mx n \<Longrightarrow>
   \<exists>p. snd x = p @ snd y \<and> fst y = fst x + length p \<and> n \<le> length p \<and>
       within_max mx (length p) \<and> (\<forall>ch\<in>set p. atom_matches ic a ch)"
proof (induction arbitrary: n mx rule: consumes.induct)
  case (cons_rep_stop mx' n' r x)
  then show ?case by (auto simp: within_max_def split: option.splits)
next
  case (cons_rep_step mx' r x y n' z)
  have eqs: "r = Atom a" "n' = n" "mx' = mx"
    using cons_rep_step.prems(1) by simp_all
  have wm: "within_max (map_option (\<lambda>k. k - 1) mx) (n - 1)"
    using cons_rep_step.prems(2) by (auto simp: within_max_def split: option.splits)
  obtain p where p: "snd y = p @ snd z" "fst z = fst y + length p" "n - 1 \<le> length p"
      "within_max (map_option (\<lambda>k. k - 1) mx) (length p)" "\<forall>ch\<in>set p. atom_matches ic a ch"
    using cons_rep_step.IH(2) [of "n - 1" "map_option (\<lambda>k. k - 1) mx"] eqs wm by auto
  obtain ch where ch: "snd x = ch # snd y" "fst y = Suc (fst x)" "atom_matches ic a ch"
    using cons_rep_step.hyps(2) eqs by (auto simp: consumes_Atom_iff)
  have "mx \<noteq> Some 0" using cons_rep_step.hyps(1) eqs by simp
  with p ch show ?case
    by (intro exI [of _ "ch # p"]) (auto simp: within_max_def split: option.splits)
qed auto

lemma consumes_Repeat_Atom_intro:
  "snd x = p @ snd y \<Longrightarrow> fst y = fst x + length p \<Longrightarrow> n \<le> length p \<Longrightarrow>
   within_max mx (length p) \<Longrightarrow> \<forall>ch\<in>set p. atom_matches ic a ch \<Longrightarrow>
   consumes ic (Repeat (Atom a) n mx) x y"
proof (induction p arbitrary: x n mx)
  case Nil
  then have "y = x" "n = 0" by (cases x, cases y, simp_all)
  then show ?case by (simp add: cons_rep_stop)
next
  case (Cons ch p)
  let ?y1 = "(Suc (fst x), p @ snd y)"
  have mx: "mx \<noteq> Some 0"
    using Cons.prems(4) by (auto simp: within_max_def)
  have atom: "consumes ic (Atom a) x ?y1"
    using Cons.prems(1,5) by (simp add: consumes_Atom_iff)
  have rep: "consumes ic (Repeat (Atom a) (n - 1) (map_option (\<lambda>k. k - 1) mx)) ?y1 y"
  proof (rule Cons.IH)
    show "within_max (map_option (\<lambda>k. k - 1) mx) (length p)"
      using Cons.prems(4) by (auto simp: within_max_def split: option.splits)
  qed (use Cons.prems in simp_all)
  have "length (snd ?y1) < length (snd x)"
    using Cons.prems(1) by simp
  then show ?case
    using cons_rep_step [OF mx atom _ rep] by blast
qed

lemma consumes_Repeat_Atom:
  "within_max mx n \<Longrightarrow>
   consumes ic (Repeat (Atom a) n mx) x y \<longleftrightarrow>
   (\<exists>p. snd x = p @ snd y \<and> fst y = fst x + length p \<and> n \<le> length p \<and>
        within_max mx (length p) \<and> (\<forall>ch\<in>set p. atom_matches ic a ch))"
  by (blast intro: consumes_Repeat_Atom_intro dest: consumes_Repeat_Atom_dest)

subsection \<open>Case folding\<close>

lemma canon_code_eq_iff:
  fixes m n :: nat
  assumes "m < 256" "n < 256"
  shows "(if lower_code m then m - 32 else m) = (if lower_code n then n - 32 else n) \<longleftrightarrow>
         m = n \<or> m = (if lower_code n then n - 32 else if upper_code n then n + 32 else n)"
  using assms unfolding lower_code_def upper_code_def by auto

lemma canonicalize_True_code:
  "canonicalize True ch = char_of (if lower_code (code_unit ch) then code_unit ch - 32 else code_unit ch)"
  by (simp add: canonicalize_def)

lemma other_case_code:
  "code_unit (other_case ch) =
     (if lower_code (code_unit ch) then code_unit ch - 32
      else if upper_code (code_unit ch) then code_unit ch + 32 else code_unit ch)"
proof -
  have "upper_code (code_unit ch) \<Longrightarrow> code_unit ch + 32 < 256"
    by (auto simp: upper_code_def)
  then show ?thesis
    by (simp add: other_case_def)
qed

lemma canonicalize_eq_iff:
  "canonicalize True a = canonicalize True b \<longleftrightarrow> a = b \<or> a = other_case b"
proof -
  let ?f = "\<lambda>n::nat. if lower_code n then n - 32 else n"
  have "canonicalize True a = canonicalize True b \<longleftrightarrow> ?f (code_unit a) = ?f (code_unit b)"
    unfolding canonicalize_True_code
    by (rule char_of_inj_below_256) simp_all
  also have "\<dots> \<longleftrightarrow> code_unit a = code_unit b \<or> code_unit a = code_unit (other_case b)"
    unfolding other_case_code by (rule canon_code_eq_iff) simp_all
  finally show ?thesis by simp
qed

lemma char_set_matches_spec:
  "char_set_matches ic A invert ch = char_set_spec ic A invert ch"
proof (cases ic)
  case True
  then show ?thesis
    by (auto simp: char_set_matches_def char_set_spec_def canonicalize_eq_iff)
next
  case False
  then show ?thesis
    by (auto simp: char_set_matches_def char_set_spec_def canonicalize_def)
qed

subsection \<open>Sequences of simple terms\<close>

text \<open>
  A sequence of simple terms matches exactly the concatenations of one accepted piece
  per term; with both anchors, the whole input is such a concatenation.
\<close>

lemma consumes_Repeat_Atom_split:
  "within_max mx n \<Longrightarrow>
   consumes ic (Repeat (Atom a) n mx) x y \<longleftrightarrow>
   (\<exists>p rest. snd x = p @ rest \<and> y = (fst x + length p, rest) \<and> n \<le> length p \<and>
        within_max mx (length p) \<and> (\<forall>ch\<in>set p. atom_matches ic a ch))"
  by (cases y) (auto simp: consumes_Repeat_Atom)

lemma consumes_simple_term:
  "simple_term t \<Longrightarrow>
   consumes ic t x y \<longleftrightarrow> (\<exists>p rest. snd x = p @ rest \<and> y = (fst x + length p, rest) \<and> piece_ok ic t p)"
proof (induction t)
  case (Atom a)
  show ?case by (auto simp: consumes_Atom_iff)
next
  case (Group r)
  then show ?case by simp
next
  case (Repeat r n mx)
  then obtain a where "r = Atom a" by (cases r) auto
  with Repeat.prems show ?case by (simp add: consumes_Repeat_Atom_split)
qed simp_all

lemma consumes_seqs_simple:
  "\<forall>t\<in>set ts. simple_term t \<Longrightarrow>
   consumes ic (seqs ts) x y \<longleftrightarrow>
   (\<exists>ps rest. snd x = concat ps @ rest \<and> y = (fst x + length (concat ps), rest) \<and>
              list_all2 (piece_ok ic) ts ps)"
proof (induction ts arbitrary: x)
  case Nil
  then show ?case by (cases x) auto
next
  case (Cons t ts)
  have "consumes ic (seqs (t # ts)) x y \<longleftrightarrow>
        (\<exists>p rest. snd x = p @ rest \<and> piece_ok ic t p \<and>
           (\<exists>ps rest'. rest = concat ps @ rest' \<and> y = (fst x + length p + length (concat ps), rest') \<and>
              list_all2 (piece_ok ic) ts ps))"
    using Cons by (auto simp: consumes_simple_term)
  also have "\<dots> \<longleftrightarrow> (\<exists>ps rest. snd x = concat ps @ rest \<and> y = (fst x + length (concat ps), rest) \<and>
              list_all2 (piece_ok ic) (t # ts) ps)" (is "?l \<longleftrightarrow> ?r")
  proof
    assume ?l
    then obtain p ps rest' where "snd x = p @ concat ps @ rest'" "piece_ok ic t p"
        "y = (fst x + length p + length (concat ps), rest')" "list_all2 (piece_ok ic) ts ps"
      by blast
    then show ?r
      by (intro exI [of _ "p # ps"] exI [of _ rest']) simp
  next
    assume ?r
    then obtain z zs rest where "snd x = z @ concat zs @ rest" "piece_ok ic t z"
        "y = (fst x + length z + length (concat zs), rest)" "list_all2 (piece_ok ic) ts zs"
      by (auto simp: list_all2_Cons1)
    then show ?l
      by blast
  qed
  finally show ?case .
qed

lemma regexp_test_anchored_simple:
  "\<forall>t\<in>set ts. simple_term t \<Longrightarrow>
   regexp_test ic (anchored ts) w \<longleftrightarrow> (\<exists>ps. list_all2 (piece_ok ic) ts ps \<and> w = concat ps)"
  by (auto simp: regexp_test_anchored consumes_seqs_simple)

lemma ex_list_all2_Nil:
  "(\<exists>ps. list_all2 Q [] ps \<and> P ps) \<longleftrightarrow> P []"
  by simp

lemma ex_list_all2_Cons:
  "(\<exists>ps. list_all2 Q (t # ts) ps \<and> P ps) \<longleftrightarrow> (\<exists>z. Q t z \<and> (\<exists>zs. list_all2 Q ts zs \<and> P (z # zs)))"
  by (auto simp: list_all2_Cons1)

lemma optional_piece:
  "length p \<le> 1 \<and> (\<forall>ch\<in>set p. P ch) \<longleftrightarrow> p = [] \<or> (\<exists>c. p = [c] \<and> P c)"
  by (cases p) auto

lemma atom_matches_case_sensitive [simp]:
  "atom_matches False a ch \<longleftrightarrow> atom_set a ch \<noteq> atom_inverted a"
  by (simp add: atom_matches_def char_set_matches_def)

end
