(* ===== verification/FormRules.thy ===== *)
theory FormRules
  imports JsRegex
begin

text \<open>
  The validation rules of the registration form (src/src/components/RegistrationForm.jsx,
  the \<open>register(name, options)\<close> calls of lines 83--249) and the values its three
  select boxes offer (lines 127--195). Each field is a constructor of \<open>field\<close>; each
  options object is a \<open>register_options\<close> record holding its \<open>required\<close> message, its
  \<open>pattern\<close> (the regular expression, its \<open>i\<close> flag and the message) and its
  \<open>validate\<close> callback. The callback of \<open>confirm_password\<close> reads the current value of
  \<open>password\<close> through \<open>watch\<close>: it receives the form's current values.

  The lemmas characterise, for every string, what each pattern accepts
  (\<open>full_name_pattern_iff\<close>, \<open>contact_number_pattern_iff\<close>,
  \<open>email_pattern_iff\<close>, \<open>password_pattern_iff\<close>), in the terms of the spec.
\<close>

section \<open>Fields and their options\<close>

datatype field =
    Full_name
  | Contact_number
  | Day
  | Month
  | Year
  | Email
  | Password
  | Confirm_password

primrec field_name :: "field \<Rightarrow> js_string" where
  "field_name Full_name = ''full_name''"
| "field_name Contact_number = ''contact_number''"
| "field_name Day = ''day''"
| "field_name Month = ''month''"
| "field_name Year = ''year''"
| "field_name Email = ''email''"
| "field_name Password = ''password''"
| "field_name Confirm_password = ''confirm_password''"

text \<open>The fields in the order the form registers (renders) them.\<close>

definition registered_fields :: "field list" where
  "registered_fields =
     [Full_name, Contact_number, Day, Month, Year, Email, Password, Confirm_password]"

type_synonym form_values = "field \<Rightarrow> js_string"

record register_options =
  required :: "js_string option"
  pattern :: "(rexp \<times> bool \<times> js_string) option"
  validate :: "(js_string \<Rightarrow> form_values \<Rightarrow> js_string option) option"

section \<open>The patterns\<close>

definition ascii_letters :: "class_item list" where
  "ascii_letters = [CRange CHR ''A'' CHR ''Z'', CRange CHR ''a'' CHR ''z'']"

text \<open>\<^verbatim>\<open>/^[A-Za-z ]+$/i\<close>\<close>

definition full_name_pattern :: rexp where
  "full_name_pattern =
     anchored [Repeat (Atom (AClass False (ascii_letters @ [CChar CHR '' '']))) 1 None]"

definition digit_class :: atom where
  "digit_class = AClass False [CRange CHR ''0'' CHR ''9'']"

definition separator_class :: atom where
  "separator_class = AClass False [CChar CHR ''-'', CChar CHR ''.'', CChar CHR '' '']"

text \<open>\<^verbatim>\<open>/^\(?([0-9]{3})\)?[-. ]?([0-9]{3})[-. ]?([0-9]{4})$/\<close>\<close>

definition contact_number_pattern :: rexp where
  "contact_number_pattern =
     anchored
          [Repeat (Atom (AChar CHR ''('')) 0 (Some 1),
           Group (Repeat (Atom digit_class) 3 (Some 3)),
           Repeat (Atom (AChar CHR '')'')) 0 (Some 1),
           Repeat (Atom separator_class) 0 (Some 1),
           Group (Repeat (Atom digit_class) 3 (Some 3)),
           Repeat (Atom separator_class) 0 (Some 1),
           Group (Repeat (Atom digit_class) 4 (Some 4))]"

definition non_space :: atom where
  "non_space = AClass False [CNotSpace]"

text \<open>\<^verbatim>\<open>/^\S+@\S+\.\S+$/\<close>\<close>

definition email_pattern :: rexp where
  "email_pattern =
     anchored [Repeat (Atom non_space) 1 None, Atom (AChar CHR ''@''),
               Repeat (Atom non_space) 1 None, Atom (AChar CHR ''.''),
               Repeat (Atom non_space) 1 None]"

text \<open>\<^verbatim>\<open>/^(?=.*[a-z])(?=.*[A-Z])(?=.*\d)[a-zA-Z\d]{8,}$/\<close>\<close>

definition password_pattern :: rexp where
  "password_pattern =
     anchored
          [Look (seqs [Repeat (Atom ADot) 0 None, Atom (AClass False [CRange CHR ''a'' CHR ''z''])]),
           Look (seqs [Repeat (Atom ADot) 0 None, Atom (AClass False [CRange CHR ''A'' CHR ''Z''])]),
           Look (seqs [Repeat (Atom ADot) 0 None, Atom (AClass False [CDigit])]),
           Repeat (Atom (AClass False [CRange CHR ''a'' CHR ''z'', CRange CHR ''A'' CHR ''Z'', CDigit])) 8 None]"

text \<open>The character classes the spec speaks of.\<close>

definition is_ascii_upper :: "char \<Rightarrow> bool" where
  "is_ascii_upper ch \<longleftrightarrow> 65 \<le> code_unit ch \<and> code_unit ch \<le> 90"

definition is_ascii_lower :: "char \<Rightarrow> bool" where
  "is_ascii_lower ch \<longleftrightarrow> 97 \<le> code_unit ch \<and> code_unit ch \<le> 122"

definition is_ascii_letter :: "char \<Rightarrow> bool" where
  "is_ascii_letter ch \<longleftrightarrow> is_ascii_upper ch \<or> is_ascii_lower ch"

section \<open>The options objects\<close>

definition full_name_options :: register_options where
  "full_name_options =
     \<lparr>required = Some ''Full name is required'',
      pattern = Some (full_name_pattern, True,
                      ''Full name must not contain numbers or special characters''),
      validate = None\<rparr>"

definition contact_number_options :: register_options where
  "contact_number_options =
     \<lparr>required = Some ''Contact number is required'',
      pattern = Some (contact_number_pattern, False, ''Invalid Canadian phone number format''),
      validate = None\<rparr>"

definition day_options :: register_options where
  "day_options = \<lparr>required = Some ''Day is required'', pattern = None, validate = None\<rparr>"

definition month_options :: register_options where
  "month_options = \<lparr>required = Some ''Month is required'', pattern = None, validate = None\<rparr>"

definition year_options :: register_options where
  "year_options = \<lparr>required = Some ''Year is required'', pattern = None, validate = None\<rparr>"

definition email_options :: register_options where
  "email_options =
     \<lparr>required = Some ''Email is required'',
      pattern = Some (email_pattern, False, ''Invalid email format''),
      validate = None\<rparr>"

definition password_options :: register_options where
  "password_options =
     \<lparr>required = Some ''Password is required'',
      pattern = Some (password_pattern, False,
        ''Password must contain 8 characters, at least one uppercase letter, one lowercase letter, and one number''),
      validate = None\<rparr>"

text \<open>
  \<^verbatim>\<open>validate: (value) => value === watch('password') || 'The passwords do not match'\<close>:
  \<open>None\<close> is the callback returning \<open>true\<close>.
\<close>

definition confirm_password_check :: "js_string \<Rightarrow> form_values \<Rightarrow> js_string option" where
  "confirm_password_check value vals =
     (if value = vals Password then None else Some ''The passwords do not match'')"

definition confirm_password_options :: register_options where
  "confirm_password_options =
     \<lparr>required = None, pattern = None, validate = Some confirm_password_check\<rparr>"

primrec field_options :: "field \<Rightarrow> register_options" where
  "field_options Full_name = full_name_options"
| "field_options Contact_number = contact_number_options"
| "field_options Day = day_options"
| "field_options Month = month_options"
| "field_options Year = year_options"
| "field_options Email = email_options"
| "field_options Password = password_options"
| "field_options Confirm_password = confirm_password_options"

section \<open>The select boxes\<close>

text \<open>
  Each select offers the placeholder option (value \<open>''''\<close>) and then:
  \<^item> day: \<^verbatim>\<open>[...Array(31)].map((_, i) => i + 1)\<close>, the values 1 to 31;
  \<^item> month: the literals \<open>'01'\<close> to \<open>'12'\<close>;
  \<^item> year: \<^verbatim>\<open>new Date().getFullYear() - i\<close> for \<open>i\<close> from 0 to 99, the current
    year being a parameter of the model (the clock at render time).
  An option's value attribute is the string of its value.
\<close>

definition day_values :: "js_string list" where
  "day_values = map (\<lambda>i. nat_str (i + 1)) [0..<31]"

definition month_values :: "js_string list" where
  "month_values = [''01'', ''02'', ''03'', ''04'', ''05'', ''06'', ''07'', ''08'', ''09'', ''10'', ''11'', ''12'']"

definition year_values :: "int \<Rightarrow> js_string list" where
  "year_values current_year = map (\<lambda>i. int_str (current_year - int i)) [0..<100]"

primrec select_values :: "int \<Rightarrow> field \<Rightarrow> js_string list option" where
  "select_values cy Full_name = None"
| "select_values cy Contact_number = None"
| "select_values cy Day = Some ('''' # day_values)"
| "select_values cy Month = Some ('''' # month_values)"
| "select_values cy Year = Some ('''' # year_values cy)"
| "select_values cy Email = None"
| "select_values cy Password = None"
| "select_values cy Confirm_password = None"

declare full_name_pattern_def [rx_eval] contact_number_pattern_def [rx_eval]
  email_pattern_def [rx_eval] password_pattern_def [rx_eval] ascii_letters_def [rx_eval]
  digit_class_def [rx_eval] separator_class_def [rx_eval] non_space_def [rx_eval]

section \<open>What the patterns accept\<close>

subsection \<open>Character sets\<close>

lemma code_unit_space_iff:
  "ch = CHR '' '' \<longleftrightarrow> code_unit ch = 32"
  by (auto simp: char_of_eq_iff dest: code_unit_eq_imp_char_of)

lemma name_char_other_case:
  assumes "is_ascii_letter (other_case ch) \<or> other_case ch = CHR '' ''"
  shows "is_ascii_letter ch \<or> ch = CHR '' ''"
  using assms unfolding is_ascii_letter_def is_ascii_upper_def is_ascii_lower_def code_unit_space_iff
    other_case_code
  by (simp add: lower_code_def upper_code_def split: if_split_asm) arith+

lemma name_class_has:
  "class_has (ascii_letters @ [CChar CHR '' '']) ch \<longleftrightarrow> is_ascii_letter ch \<or> ch = CHR '' ''"
  by (auto simp: class_has_def ascii_letters_def is_ascii_letter_def is_ascii_upper_def
      is_ascii_lower_def)

lemma name_atom_matches:
  "atom_matches ic (AClass False (ascii_letters @ [CChar CHR '' ''])) ch \<longleftrightarrow>
     is_ascii_letter ch \<or> ch = CHR '' ''"
  unfolding atom_matches_def char_set_matches_def atom_set.simps atom_inverted.simps name_class_has
  using name_char_other_case by blast

lemma separator_matches:
  "atom_matches False separator_class ch \<longleftrightarrow> ch \<in> {CHR ''-'', CHR ''.'', CHR '' ''}"
  by (auto simp: separator_class_def class_has_def)

lemma digit_matches:
  "atom_matches False digit_class ch \<longleftrightarrow> is_decimal_digit ch"
  by (simp add: digit_class_def class_has_def is_decimal_digit_def)

lemma non_space_matches:
  "atom_matches False non_space ch \<longleftrightarrow> \<not> is_js_white_space ch"
  by (simp add: non_space_def class_has_def)

lemma alnum_class_has:
  "class_has [CRange CHR ''a'' CHR ''z'', CRange CHR ''A'' CHR ''Z'', CDigit] ch \<longleftrightarrow>
     is_ascii_letter ch \<or> is_decimal_digit ch"
  by (auto simp: class_has_def is_ascii_letter_def is_ascii_upper_def is_ascii_lower_def)

subsection \<open>Pieces\<close>

lemma optional_char_piece:
  "piece_ok False (Repeat (Atom (AChar c)) 0 (Some 1)) p \<longleftrightarrow> p \<in> {[], [c]}"
  by (cases p) auto

lemma optional_separator_piece:
  "piece_ok False (Repeat (Atom separator_class) 0 (Some 1)) p \<longleftrightarrow> p \<in> {[], ''-'', ''.'', '' ''}"
  by (cases p) (auto simp: separator_matches simp del: atom_matches_case_sensitive)

lemma digits_piece:
  "piece_ok False (Group (Repeat (Atom digit_class) n (Some n))) p \<longleftrightarrow>
     length p = n \<and> (\<forall>ch\<in>set p. is_decimal_digit ch)"
  by (auto simp: digit_matches simp del: atom_matches_case_sensitive)

lemma char_piece:
  "piece_ok False (Atom (AChar c)) p \<longleftrightarrow> p = [c]"
  by auto

lemma non_space_piece:
  "piece_ok False (Repeat (Atom non_space) 1 None) p \<longleftrightarrow>
     p \<noteq> [] \<and> (\<forall>ch\<in>set p. \<not> is_js_white_space ch)"
  by (auto simp: non_space_matches Suc_le_eq simp del: atom_matches_case_sensitive)

subsection \<open>Look-ahead\<close>

lemma look_ahead_any_then:
  "(\<exists>y. consumes ic (seqs [Repeat (Atom ADot) 0 None, Atom a]) x y) \<longleftrightarrow>
   (\<exists>p ch rest. snd x = p @ ch # rest \<and> (\<forall>c\<in>set p. atom_matches ic ADot c) \<and> atom_matches ic a ch)"
proof -
  have simple: "\<forall>t\<in>set [Repeat (Atom ADot) 0 None, Atom a]. simple_term t" by simp
  show ?thesis (is "?l \<longleftrightarrow> ?r")
  proof
    assume ?l
    then obtain p ch rest where "snd x = concat [p, [ch]] @ rest"
        "\<forall>c\<in>set p. atom_matches ic ADot c" "atom_matches ic a ch"
      unfolding consumes_seqs_simple [OF simple] by (auto simp: list_all2_Cons1)
    then show ?r by auto
  next
    assume ?r
    then obtain p ch rest where "snd x = concat [p, [ch]] @ rest"
        "\<forall>c\<in>set p. atom_matches ic ADot c" "atom_matches ic a ch"
      by auto
    then show ?l
      unfolding consumes_seqs_simple [OF simple]
      by (intro exI [of _ "(fst x + length p + 1, rest)"] exI [of _ "[p, [ch]]"] exI [of _ rest]) auto
  qed
qed

lemma consumes_seqs_Look:
  "consumes ic (seqs (Look r # ts)) x z \<longleftrightarrow> (\<exists>y. consumes ic r x y) \<and> consumes ic (seqs ts) x z"
  by auto

lemma letter_or_digit_not_line_terminator:
  "is_ascii_letter ch \<or> is_decimal_digit ch \<Longrightarrow> \<not> is_line_terminator ch"
  by (auto simp: is_ascii_letter_def is_ascii_upper_def is_ascii_lower_def is_decimal_digit_def
      is_line_terminator_def)

lemma exists_after_non_terminators:
  assumes "\<forall>c\<in>set w. \<not> is_line_terminator c"
  shows "(\<exists>p ch rest. w = p @ ch # rest \<and> (\<forall>c\<in>set p. \<not> is_line_terminator c) \<and> P ch) \<longleftrightarrow>
         (\<exists>ch\<in>set w. P ch)"
proof
  assume "\<exists>ch\<in>set w. P ch"
  then obtain ch where "ch \<in> set w" "P ch" by blast
  moreover from \<open>ch \<in> set w\<close> obtain p rest where "w = p @ ch # rest"
    by (blast dest: split_list)
  ultimately show "\<exists>p ch rest. w = p @ ch # rest \<and> (\<forall>c\<in>set p. \<not> is_line_terminator c) \<and> P ch"
    using assms by auto
qed auto

subsection \<open>The four patterns\<close>

text \<open>
  C13. The full-name pattern accepts a string exactly when it is non-empty and made of
  ASCII letters and spaces.
\<close>

theorem full_name_pattern_iff:
  "regexp_test True full_name_pattern w \<longleftrightarrow>
     w \<noteq> [] \<and> (\<forall>ch\<in>set w. is_ascii_letter ch \<or> ch = CHR '' '')"
  unfolding full_name_pattern_def regexp_test_anchored
  by (auto simp: consumes_Repeat_Atom_split name_atom_matches Suc_le_eq)

theorem full_name_pattern_iff_witness:
  "regexp_test True full_name_pattern ''Jane Doe''"
  using full_name_pattern_iff [of "''Jane Doe''"]
  by (simp add: is_ascii_letter_def is_ascii_upper_def is_ascii_lower_def)

text \<open>
  C12. The contact-number pattern accepts a string exactly when it is an optional
  \<open>(\<close>, three digits, an optional \<open>)\<close>, an optional separator (\<open>-\<close>, \<open>.\<close> or
  space), three digits, an optional separator and four digits, in this order.
\<close>

theorem contact_number_pattern_iff:
  "regexp_test False contact_number_pattern w \<longleftrightarrow>
   (\<exists>p1 d1 p2 s1 d2 s2 d3.
      p1 \<in> {[], ''(''} \<and> length d1 = 3 \<and> (\<forall>ch\<in>set d1. is_decimal_digit ch) \<and>
      p2 \<in> {[], '')''} \<and> s1 \<in> {[], ''-'', ''.'', '' ''} \<and>
      length d2 = 3 \<and> (\<forall>ch\<in>set d2. is_decimal_digit ch) \<and> s2 \<in> {[], ''-'', ''.'', '' ''} \<and>
      length d3 = 4 \<and> (\<forall>ch\<in>set d3. is_decimal_digit ch) \<and>
      w = p1 @ d1 @ p2 @ s1 @ d2 @ s2 @ d3)"
  unfolding contact_number_pattern_def
  by (subst regexp_test_anchored_simple, simp)
     (simp only: ex_list_all2_Cons ex_list_all2_Nil optional_char_piece optional_separator_piece
      digits_piece concat.simps append_Nil2 conj_assoc ex_simps)

theorem contact_number_pattern_iff_witness:
  "regexp_test False contact_number_pattern ''(416) 555-0199''"
  apply (subst contact_number_pattern_iff)
  apply (rule exI [of _ "''(''"], rule exI [of _ "''416''"], rule exI [of _ "'')''"],
      rule exI [of _ "'' ''"], rule exI [of _ "''555''"], rule exI [of _ "''-''"],
      rule exI [of _ "''0199''"])
  apply (simp add: is_decimal_digit_def)
  done

text \<open>
  C10. The email pattern accepts a string exactly when it is a non-empty run of
  non-white-space characters, \<open>@\<close>, another such run, \<open>.\<close> and a third such run.
\<close>

theorem email_pattern_iff:
  "regexp_test False email_pattern w \<longleftrightarrow>
   (\<exists>local domain tld.
      local \<noteq> [] \<and> (\<forall>ch\<in>set local. \<not> is_js_white_space ch) \<and>
      domain \<noteq> [] \<and> (\<forall>ch\<in>set domain. \<not> is_js_white_space ch) \<and>
      tld \<noteq> [] \<and> (\<forall>ch\<in>set tld. \<not> is_js_white_space ch) \<and>
      w = local @ ''@'' @ domain @ ''.'' @ tld)"
  unfolding email_pattern_def
  by (subst regexp_test_anchored_simple, simp)
     (simp only: ex_list_all2_Cons ex_list_all2_Nil char_piece non_space_piece
      concat.simps append_Nil2 conj_assoc ex_simps simp_thms append.simps)

theorem email_pattern_iff_witness:
  "regexp_test False email_pattern ''jane@example.com''"
  apply (subst email_pattern_iff)
  apply (rule exI [of _ "''jane''"], rule exI [of _ "''example''"], rule exI [of _ "''com''"])
  apply (simp add: is_js_white_space_def)
  done

text \<open>
  C9. The password pattern accepts a string exactly when it has at least eight
  characters, all ASCII letters or digits, among them a lower-case letter, an upper-case
  letter and a digit.
\<close>

theorem password_pattern_iff:
  "regexp_test False password_pattern w \<longleftrightarrow>
     8 \<le> length w \<and> (\<forall>ch\<in>set w. is_ascii_letter ch \<or> is_decimal_digit ch) \<and>
     (\<exists>ch\<in>set w. is_ascii_lower ch) \<and> (\<exists>ch\<in>set w. is_ascii_upper ch) \<and>
     (\<exists>ch\<in>set w. is_decimal_digit ch)"
proof -
  let ?body = "Repeat (Atom (AClass False [CRange CHR ''a'' CHR ''z'', CRange CHR ''A'' CHR ''Z'', CDigit])) 8 None"
  let ?L = "\<lambda>a. \<exists>p ch rest. w = p @ ch # rest \<and> (\<forall>c\<in>set p. \<not> is_line_terminator c) \<and> atom_matches False a ch"
  have main: "consumes False (seqs [?body]) (0, w) (length w, []) \<longleftrightarrow>
      8 \<le> length w \<and> (\<forall>ch\<in>set w. is_ascii_letter ch \<or> is_decimal_digit ch)"
    by (auto simp: consumes_Repeat_Atom_split alnum_class_has)
  have "regexp_test False password_pattern w \<longleftrightarrow>
      ?L (AClass False [CRange CHR ''a'' CHR ''z'']) \<and> ?L (AClass False [CRange CHR ''A'' CHR ''Z'']) \<and>
      ?L (AClass False [CDigit]) \<and> consumes False (seqs [?body]) (0, w) (length w, [])"
    unfolding password_pattern_def regexp_test_anchored consumes_seqs_Look look_ahead_any_then
    by simp
  also have "\<dots> \<longleftrightarrow> 8 \<le> length w \<and> (\<forall>ch\<in>set w. is_ascii_letter ch \<or> is_decimal_digit ch) \<and>
     (\<exists>ch\<in>set w. is_ascii_lower ch) \<and> (\<exists>ch\<in>set w. is_ascii_upper ch) \<and>
     (\<exists>ch\<in>set w. is_decimal_digit ch)" (is "?lhs \<longleftrightarrow> ?rhs")
  proof (cases "\<forall>ch\<in>set w. is_ascii_letter ch \<or> is_decimal_digit ch")
    case True
    then have "\<forall>c\<in>set w. \<not> is_line_terminator c"
      using letter_or_digit_not_line_terminator by blast
    then show ?thesis
      unfolding main exists_after_non_terminators [OF \<open>\<forall>c\<in>set w. \<not> is_line_terminator c\<close>]
      by (simp add: class_has_def is_ascii_lower_def is_ascii_upper_def conj_ac)
  qed (unfold main, auto)
  finally show ?thesis .
qed

theorem password_pattern_iff_witness:
  "regexp_test False password_pattern ''Abcdef12''"
  using password_pattern_iff [of "''Abcdef12''"]
  by (simp add: is_ascii_letter_def is_ascii_upper_def is_ascii_lower_def is_decimal_digit_def)

text \<open>
  C23. The \<open>i\<close> flag of the full-name pattern changes nothing: with and without it the
  pattern accepts the same strings, since the class already holds both cases of every
  letter it admits and case folding maps no other Latin-1 character into it.
\<close>

theorem full_name_ignore_case_redundant:
  "regexp_test True full_name_pattern w = regexp_test False full_name_pattern w"
  unfolding full_name_pattern_def regexp_test_anchored
  by (simp add: consumes_Repeat_Atom_split name_atom_matches del: atom_matches_case_sensitive)

subsection \<open>The options of the select boxes\<close>

text \<open>The value of a select is a day 1--31, a zero-padded month 01--12, or one of the hundred years up to the current one.\<close>

lemma month_values_pad:
  "month_values = map (\<lambda>m. pad_start 2 ''0'' (nat_str m)) [1..<13]"
  by (simp add: month_values_def upt_rec pad_start_single nat_str.simps digit_char_def eq_char_of_iff)

lemma day_values_member:
  "s \<in> set day_values \<longleftrightarrow> (\<exists>d. 1 \<le> d \<and> d \<le> 31 \<and> s = nat_str d)"
proof -
  have "s \<in> set day_values \<longleftrightarrow> (\<exists>i<31. s = nat_str (Suc i))"
    by (auto simp: day_values_def)
  also have "\<dots> \<longleftrightarrow> (\<exists>d. 1 \<le> d \<and> d \<le> 31 \<and> s = nat_str d)"
  proof
    assume "\<exists>d. 1 \<le> d \<and> d \<le> 31 \<and> s = nat_str d"
    then obtain d where "1 \<le> d" "d \<le> 31" "s = nat_str d" by blast
    then show "\<exists>i<31. s = nat_str (Suc i)" by (intro exI [of _ "d - 1"]) simp
  next
    assume "\<exists>i<31. s = nat_str (Suc i)"
    then obtain i where "i < 31" "s = nat_str (Suc i)" by blast
    then show "\<exists>d. 1 \<le> d \<and> d \<le> 31 \<and> s = nat_str d" by (intro exI [of _ "Suc i"]) simp
  qed
  finally show ?thesis .
qed

lemma month_values_member:
  "s \<in> set month_values \<longleftrightarrow> (\<exists>m. 1 \<le> m \<and> m \<le> 12 \<and> s = pad_start 2 ''0'' (nat_str m))"
  by (auto simp: month_values_pad)

lemma year_values_member:
  "0 \<le> cy - 99 \<Longrightarrow> s \<in> set (year_values cy) \<longleftrightarrow> (\<exists>y. cy - 99 \<le> int y \<and> int y \<le> cy \<and> s = nat_str y)"
proof -
  assume "0 \<le> cy - 99"
  have "s \<in> set (year_values cy) \<longleftrightarrow> (\<exists>i<100. s = int_str (cy - int i))"
    by (auto simp: year_values_def)
  also have "\<dots> \<longleftrightarrow> (\<exists>y. cy - 99 \<le> int y \<and> int y \<le> cy \<and> s = nat_str y)"
  proof
    assume "\<exists>i<100. s = int_str (cy - int i)"
    then obtain i where "i < 100" "s = int_str (cy - int i)" by blast
    with \<open>0 \<le> cy - 99\<close> show "\<exists>y. cy - 99 \<le> int y \<and> int y \<le> cy \<and> s = nat_str y"
      by (intro exI [of _ "nat (cy - int i)"]) (simp add: int_str_def)
  next
    assume "\<exists>y. cy - 99 \<le> int y \<and> int y \<le> cy \<and> s = nat_str y"
    then obtain y where "cy - 99 \<le> int y" "int y \<le> cy" "s = nat_str y" by blast
    then show "\<exists>i<100. s = int_str (cy - int i)"
      by (intro exI [of _ "nat (cy - int y)"]) (simp add: int_str_def)
  qed
  finally show ?thesis .
qed

text \<open>
  C15. For a current year between 1099 and 9999 the year select offers 100 distinct
  four-digit years, each between the current year minus 99 and the current year.
\<close>

theorem year_values_bounds:
  assumes "1099 \<le> cy" "cy \<le> 9999"
  shows "length (year_values cy) = 100 \<and> distinct (year_values cy) \<and>
         list_all (\<lambda>v. length v = 4 \<and> (\<exists>y. parse_decimal v = Some y \<and> cy - 99 \<le> int y \<and> int y \<le> cy))
           (year_values cy)"
proof -
  have str: "int_str (cy - int i) = nat_str (nat (cy - int i))" if "i < 100" for i
    using that assms by (simp add: int_str_def)
  have "year_values cy = map (\<lambda>i. nat_str (nat (cy - int i))) [0..<100]"
    using str by (simp add: year_values_def)
  moreover have "inj_on (\<lambda>i. nat_str (nat (cy - int i))) {0..<100}"
    using assms by (auto simp: inj_on_def nat_str_inj)
  moreover have "length (nat_str (nat (cy - int i))) = 4" if "i < 100" for i
    using that assms by (intro length_nat_str_four) linarith+
  ultimately show ?thesis
    using assms by (auto simp: list_all_iff distinct_map parse_decimal_nat_str)
qed

theorem year_values_bounds_witness:
  "1099 \<le> (2026::int) \<and> (2026::int) \<le> 9999 \<and> length (year_values 2026) = 100 \<and>
   distinct (year_values 2026)"
  using year_values_bounds [of 2026] by simp

end
