(* ===== verification/HookForm.thy ===== *)
theory HookForm
  imports FormRules
begin

text \<open>
  The part of react-hook-form (v7) that turns the form's \<open>register\<close> options into
  field errors. The library is not code of the repository; this theory writes down the
  behaviour the form relies on:
  \<^item> \<open>validate_field\<close> is the library's \<open>validateField\<close> for a text input or a select
    with the options the form uses: a \<open>required\<close> message when the value is empty, then
    the \<open>pattern\<close> message when a non-empty value does not match, then the message the
    \<open>validate\<close> callback returns; the first failing rule wins;
  \<^item> \<open>form_errors\<close> is the error object \<open>handleSubmit\<close> builds by validating every
    registered field in registration order;
  \<^item> \<open>revalidate\<close> is the re-validation of one field on change once the form has been
    submitted (the default \<open>reValidateMode: 'onChange'\<close>).
  A value the library holds as \<open>undefined\<close> (after \<open>reset()\<close>) behaves like the empty
  string for every rule the form uses, so values are strings and \<open>''''\<close> stands for both.
\<close>

section \<open>Validating one field\<close>

definition validate_callback_error ::
  "register_options \<Rightarrow> js_string \<Rightarrow> form_values \<Rightarrow> js_string option" where
  "validate_callback_error opts v vals =
     (case validate opts of None \<Rightarrow> None | Some check \<Rightarrow> check v vals)"

definition pattern_error :: "register_options \<Rightarrow> js_string \<Rightarrow> form_values \<Rightarrow> js_string option" where
  "pattern_error opts v vals =
     (case pattern opts of
        None \<Rightarrow> validate_callback_error opts v vals
      | Some (re, ic, msg) \<Rightarrow>
          if v \<noteq> [] \<and> \<not> regexp_test ic re v then Some msg
          else validate_callback_error opts v vals)"

definition validate_field :: "register_options \<Rightarrow> js_string \<Rightarrow> form_values \<Rightarrow> js_string option" where
  "validate_field opts v vals =
     (case required opts of
        Some msg \<Rightarrow> if v = [] then Some msg else pattern_error opts v vals
      | None \<Rightarrow> pattern_error opts v vals)"

definition field_error :: "form_values \<Rightarrow> field \<Rightarrow> js_string option" where
  "field_error vals f = validate_field (field_options f) (vals f) vals"

section \<open>The error object\<close>

type_synonym form_error_list = "(field \<times> js_string) list"

definition form_errors :: "form_values \<Rightarrow> form_error_list" where
  "form_errors vals = List.map_filter (\<lambda>f. map_option (Pair f) (field_error vals f)) registered_fields"

text \<open>Setting or clearing one field's entry: an existing entry keeps its place.\<close>

definition set_field_error :: "field \<Rightarrow> js_string option \<Rightarrow> form_error_list \<Rightarrow> form_error_list" where
  "set_field_error f e errs =
     (case e of
        None \<Rightarrow> filter (\<lambda>(g, m). g \<noteq> f) errs
      | Some m \<Rightarrow>
          if f \<in> set (map fst errs) then map (\<lambda>(g, m'). (g, if g = f then m else m')) errs
          else errs @ [(f, m)])"

definition revalidate :: "field \<Rightarrow> form_values \<Rightarrow> form_error_list \<Rightarrow> form_error_list" where
  "revalidate f vals errs = set_field_error f (field_error vals f) errs"

text \<open>\<open>reset()\<close> with no default values: every field empty again.\<close>

definition empty_values :: form_values where
  "empty_values = (\<lambda>_. [])"

section \<open>Lemmas\<close>

subsection \<open>The error of each field\<close>

lemma field_error_Full_name:
  "field_error vals Full_name =
     (if vals Full_name = [] then Some ''Full name is required''
      else if \<not> regexp_test True full_name_pattern (vals Full_name)
      then Some ''Full name must not contain numbers or special characters'' else None)"
  by (simp add: field_error_def validate_field_def pattern_error_def validate_callback_error_def
      full_name_options_def)

lemma field_error_Contact_number:
  "field_error vals Contact_number =
     (if vals Contact_number = [] then Some ''Contact number is required''
      else if \<not> regexp_test False contact_number_pattern (vals Contact_number)
      then Some ''Invalid Canadian phone number format'' else None)"
  by (simp add: field_error_def validate_field_def pattern_error_def validate_callback_error_def
      contact_number_options_def)

lemma field_error_Day:
  "field_error vals Day = (if vals Day = [] then Some ''Day is required'' else None)"
  by (simp add: field_error_def validate_field_def pattern_error_def validate_callback_error_def
      day_options_def)

lemma field_error_Month:
  "field_error vals Month = (if vals Month = [] then Some ''Month is required'' else None)"
  by (simp add: field_error_def validate_field_def pattern_error_def validate_callback_error_def
      month_options_def)

lemma field_error_Year:
  "field_error vals Year = (if vals Year = [] then Some ''Year is required'' else None)"
  by (simp add: field_error_def validate_field_def pattern_error_def validate_callback_error_def
      year_options_def)

lemma field_error_Email:
  "field_error vals Email =
     (if vals Email = [] then Some ''Email is required''
      else if \<not> regexp_test False email_pattern (vals Email)
      then Some ''Invalid email format'' else None)"
  by (simp add: field_error_def validate_field_def pattern_error_def validate_callback_error_def
      email_options_def)

lemma field_error_Password:
  "field_error vals Password =
     (if vals Password = [] then Some ''Password is required''
      else if \<not> regexp_test False password_pattern (vals Password)
      then Some ''Password must contain 8 characters, at least one uppercase letter, one lowercase letter, and one number''
      else None)"
  by (simp add: field_error_def validate_field_def pattern_error_def validate_callback_error_def
      password_options_def)

lemma field_error_Confirm_password:
  "field_error vals Confirm_password =
     (if vals Confirm_password = vals Password then None else Some ''The passwords do not match'')"
  by (simp add: field_error_def validate_field_def pattern_error_def validate_callback_error_def
      confirm_password_options_def confirm_password_check_def)

lemmas field_error_simps = field_error_Full_name field_error_Contact_number field_error_Day
  field_error_Month field_error_Year field_error_Email field_error_Password
  field_error_Confirm_password

subsection \<open>The error object\<close>

lemma form_errors_Nil_iff:
  "form_errors vals = [] \<longleftrightarrow> (\<forall>f\<in>set registered_fields. field_error vals f = None)"
proof -
  have "List.map_filter (\<lambda>f. map_option (Pair f) (field_error vals f)) fs = [] \<longleftrightarrow>
        (\<forall>f\<in>set fs. field_error vals f = None)" for fs
    by (induction fs) (auto simp: List.map_filter_def)
  then show ?thesis by (simp add: form_errors_def)
qed

lemma form_errors_member:
  "(f, m) \<in> set (form_errors vals) \<longleftrightarrow> field_error vals f = Some m"
proof -
  have "(f, m) \<in> set (List.map_filter (\<lambda>f. map_option (Pair f) (field_error vals f)) fs) \<longleftrightarrow>
        f \<in> set fs \<and> field_error vals f = Some m" for fs
    by (induction fs) (auto simp: List.map_filter_def)
  moreover have "f \<in> set registered_fields" by (cases f) (simp_all add: registered_fields_def)
  ultimately show ?thesis by (simp add: form_errors_def)
qed

text \<open>
  C8. The form validates (the error object \<open>handleSubmit\<close> builds is empty) exactly
  when every field is non-empty, the name, phone number, email and password match their
  patterns (the name case-insensitively) and the confirmation equals the password.
\<close>

theorem form_errors_empty_iff:
  "form_errors vals = [] \<longleftrightarrow>
     vals Full_name \<noteq> [] \<and> regexp_test True full_name_pattern (vals Full_name) \<and>
     vals Contact_number \<noteq> [] \<and> regexp_test False contact_number_pattern (vals Contact_number) \<and>
     vals Day \<noteq> [] \<and> vals Month \<noteq> [] \<and> vals Year \<noteq> [] \<and>
     vals Email \<noteq> [] \<and> regexp_test False email_pattern (vals Email) \<and>
     vals Password \<noteq> [] \<and> regexp_test False password_pattern (vals Password) \<and>
     vals Confirm_password = vals Password"
  by (simp add: form_errors_Nil_iff registered_fields_def field_error_simps)

text \<open>
  C22. Every field but the confirmation is required: when its value is empty, its error is
  the field's own \<open>required\<close> message, whatever the other fields hold.
\<close>

theorem required_field_error:
  "f \<noteq> Confirm_password \<Longrightarrow> vals f = [] \<Longrightarrow>
   required (field_options f) \<noteq> None \<and> field_error vals f = required (field_options f)"
  by (cases f) (simp_all add: field_error_simps field_options_def full_name_options_def
      contact_number_options_def day_options_def month_options_def year_options_def
      email_options_def password_options_def)

text \<open>
  C21. Changing the password to a value different from the confirmation makes the next
  validation of the whole form report that the passwords do not match.
\<close>

theorem confirm_after_password_change:
  "vals Confirm_password \<noteq> p \<Longrightarrow>
   (Confirm_password, ''The passwords do not match'') \<in> set (form_errors (vals(Password := p)))"
  by (simp add: form_errors_member field_error_Confirm_password)

subsection \<open>Which values a field's error depends on\<close>

lemma field_error_own_value:
  "f \<noteq> Confirm_password \<Longrightarrow> vals' f = vals f \<Longrightarrow> field_error vals' f = field_error vals f"
  by (cases f) (simp_all add: field_error_simps)

lemma set_set_field_error:
  "(g, m) \<in> set (set_field_error f e errs) \<Longrightarrow> (g \<noteq> f \<and> (g, m) \<in> set errs) \<or> (g = f \<and> e = Some m)"
proof -
  have upd: "(g, m) \<in> set (map (\<lambda>(h, m'). (h, if h = f then x else m')) errs) \<Longrightarrow>
             (g \<noteq> f \<and> (g, m) \<in> set errs) \<or> (g = f \<and> m = x)" for x
    by (auto split: if_splits)
  show "(g, m) \<in> set (set_field_error f e errs) \<Longrightarrow> ?thesis"
    by (auto simp: set_field_error_def image_iff dest: upd split: option.splits if_splits)
qed

subsection \<open>Witnesses\<close>

theorem required_field_error_witness:
  "Email \<noteq> Confirm_password \<and> empty_values Email = [] \<and>
   required (field_options Email) \<noteq> None \<and>
   field_error empty_values Email = required (field_options Email)"
  using required_field_error [of Email empty_values] by (simp add: empty_values_def)

theorem confirm_after_password_change_witness:
  "empty_values Confirm_password \<noteq> ''Abcdef12'' \<and>
   (Confirm_password, ''The passwords do not match'')
     \<in> set (form_errors (empty_values(Password := ''Abcdef12'')))"
  using confirm_after_password_change [of empty_values "''Abcdef12''"]
  by (simp add: empty_values_def)

end
