(* ===== verification/Submit.thy ===== *)
theory Submit
  imports HookForm
begin

text \<open>
  The component's own state and its submit handler, \<open>onSubmit\<close> of
  src/src/components/RegistrationForm.jsx (lines 17--49), together with the parts of
  react-hook-form that call it (\<open>handleSubmit\<close>, \<open>reset\<close>, re-validation on change)
  and the banner the component renders from its state (lines 62--73).
  \<^item> \<open>form_state\<close> is the state the component sees: the form's values and errors (held by
    \<open>useForm\<close>), whether it has been submitted, and the \<open>alertInfo\<close> React state;
  \<^item> \<open>data_object\<close>, \<open>date_of_birth\<close> and \<open>post_data\<close> are lines 22--34, which build the
    request body from the \<open>data\<close> object \<open>handleSubmit\<close> passes;
  \<^item> the handler is split at its only \<open>await\<close>: \<open>on_submit_begin\<close> is the part before the
    request (lines 18--40) and \<open>on_settled\<close> the part after it (lines 41--48), written as
    its \<open>try\<close> block and its \<open>catch\<close> block; a \<open>TypeError\<close> thrown inside the \<open>catch\<close>
    block rejects the handler's promise and is the \<open>Inl\<close> of the result;
  \<^item> \<open>handle_submit\<close> and \<open>settle\<close> are \<open>handleSubmit(onSubmit)\<close> (line 74) around them.
  The HTTP exchange is an \<open>http_outcome\<close>: a 2xx response, an error response, or no
  response at all, with the parsed body (\<open>null\<close>/\<open>undefined\<close>, or an object whose
  \<open>description\<close> property may be absent).
\<close>

section \<open>State\<close>

record alert_info =
  message :: "js_string option"
  alert_type :: js_string

text \<open>\<open>useState({ message: '', type: '' })\<close> (line 15).\<close>

definition initial_alert :: alert_info where
  "initial_alert = \<lparr>message = Some [], alert_type = []\<rparr>"

record form_state =
  field_values :: form_values
  errors :: form_error_list
  is_submitted :: bool
  alert :: alert_info

definition initial_form_state :: form_state where
  "initial_form_state =
     \<lparr>field_values = empty_values, errors = [], is_submitted = False, alert = initial_alert\<rparr>"

section \<open>The request body\<close>

text \<open>The \<open>data\<close> object: one property per registered field, in registration order.\<close>

definition data_object :: "form_values \<Rightarrow> js_object" where
  "data_object vals = map (\<lambda>f. (field_name f, vals f)) registered_fields"

text \<open>A property read inside a template literal: an absent property prints as \<open>undefined\<close>.\<close>

definition prop_string :: "js_object \<Rightarrow> js_string \<Rightarrow> js_string" where
  "prop_string ob k = (case obj_get ob k of None \<Rightarrow> ''undefined'' | Some v \<Rightarrow> v)"

definition date_of_birth :: "js_object \<Rightarrow> js_string" where
  "date_of_birth data =
     prop_string data ''year'' @ ''-'' @ pad_start 2 ''0'' (prop_string data ''month'') @ ''-'' @
     pad_start 2 ''0'' (prop_string data ''day'')"

definition post_data :: "js_object \<Rightarrow> js_object" where
  "post_data data =
     obj_delete ''year'' (obj_delete ''month'' (obj_delete ''day''
       (obj_set ''date_of_birth'' (date_of_birth data) data)))"

section \<open>The handler\<close>

definition set_alert :: "js_string option \<Rightarrow> js_string \<Rightarrow> form_state \<Rightarrow> form_state" where
  "set_alert m t st = st\<lparr>alert := \<lparr>message = m, alert_type = t\<rparr>\<rparr>"

text \<open>react-hook-form's \<open>clearErrors()\<close> and \<open>reset()\<close> (no default values).\<close>

definition clear_errors :: "form_state \<Rightarrow> form_state" where
  "clear_errors st = st\<lparr>errors := []\<rparr>"

definition form_reset :: "form_state \<Rightarrow> form_state" where
  "form_reset st = st\<lparr>field_values := empty_values, errors := [], is_submitted := False\<rparr>"

text \<open>Lines 18--40: clear the banner and the errors, build the body, send it.\<close>

definition on_submit_begin :: "js_object \<Rightarrow> form_state \<Rightarrow> form_state \<times> js_object" where
  "on_submit_begin data st = (clear_errors (set_alert (Some []) [] st), post_data data)"

datatype response_body = Body_nullish | Body_object "js_string option"

datatype http_outcome = Http_ok response_body | Http_error response_body | No_response

text \<open>
  What the \<open>catch\<close> block receives: an axios error carrying the error response's body,
  or an error with no \<open>response\<close> property (a network failure, or the \<open>TypeError\<close> of
  line 41 on a \<open>null\<close> body).
\<close>

datatype caught = Caught_response response_body | Caught_no_response

datatype js_error = TypeError

text \<open>\<open>a || b\<close> on a description that may be \<open>undefined\<close>.\<close>

definition js_or :: "js_string option \<Rightarrow> js_string \<Rightarrow> js_string" where
  "js_or a b = (case a of Some s \<Rightarrow> if js_truthy s then s else b | None \<Rightarrow> b)"

text \<open>Lines 41--42, the rest of the \<open>try\<close> block.\<close>

definition try_block :: "http_outcome \<Rightarrow> form_state \<Rightarrow> caught + form_state" where
  "try_block r st =
     (case r of
        Http_ok (Body_object d) \<Rightarrow> Inr (form_reset (set_alert d ''success'' st))
      | Http_ok Body_nullish \<Rightarrow> Inl Caught_no_response
      | Http_error b \<Rightarrow> Inl (Caught_response b)
      | No_response \<Rightarrow> Inl Caught_no_response)"

text \<open>Lines 43--48: \<open>error.response?.data.description || 'An error occurred'\<close>.\<close>

definition catch_block :: "caught \<Rightarrow> form_state \<Rightarrow> js_error + form_state" where
  "catch_block e st =
     (case e of
        Caught_no_response \<Rightarrow> Inr (set_alert (Some ''An error occurred'') ''danger'' st)
      | Caught_response Body_nullish \<Rightarrow> Inl TypeError
      | Caught_response (Body_object d) \<Rightarrow>
          Inr (set_alert (Some (js_or d ''An error occurred'')) ''danger'' st))"

definition on_settled :: "http_outcome \<Rightarrow> form_state \<Rightarrow> js_error + form_state" where
  "on_settled r st = (case try_block r st of Inr st' \<Rightarrow> Inr st' | Inl e \<Rightarrow> catch_block e st)"

text \<open>
  \<open>handleSubmit(onSubmit)\<close> (line 74): validate every field; with errors, record them and
  stop; otherwise run the handler up to its request. \<open>settle\<close> is the handler's
  continuation once the request has settled, followed by the end of \<open>handleSubmit\<close>, which
  marks the form submitted in either case and then passes a rejection of the handler on
  (the \<open>Some\<close> error; the state keeps what the handler had set before it threw).
\<close>

definition handle_submit :: "form_state \<Rightarrow> form_state \<times> js_object option" where
  "handle_submit st =
     (let errs = form_errors (field_values st) in
      if errs \<noteq> [] then (st\<lparr>errors := errs, is_submitted := True\<rparr>, None)
      else (let (st', body) = on_submit_begin (data_object (field_values st)) (st\<lparr>errors := []\<rparr>)
            in (st', Some body)))"

definition settle :: "http_outcome \<Rightarrow> form_state \<Rightarrow> form_state \<times> js_error option" where
  "settle r st =
     (case on_settled r st of
        Inr st' \<Rightarrow> (st'\<lparr>is_submitted := True\<rparr>, None)
      | Inl e \<Rightarrow> (st\<lparr>is_submitted := True\<rparr>, Some e))"

text \<open>
  A change of one field: the value is stored and, once the form has been submitted,
  that field alone is validated again (\<open>reValidateMode: 'onChange'\<close>).
\<close>

definition edit_field :: "field \<Rightarrow> js_string \<Rightarrow> form_state \<Rightarrow> form_state" where
  "edit_field f v st =
     (let vals = (field_values st)(f := v) in
      st\<lparr>field_values := vals,
         errors := (if is_submitted st then revalidate f vals (errors st) else errors st)\<rparr>)"

section \<open>Rendering\<close>

text \<open>Lines 62--73: the banner (variant, text) is shown iff the message is truthy.\<close>

definition banner :: "form_state \<Rightarrow> (js_string \<times> js_string) option" where
  "banner st =
     (case message (alert st) of
        Some s \<Rightarrow> if js_truthy s then Some (alert_type (alert st), s) else None
      | None \<Rightarrow> None)"

section \<open>The submitter's contract\<close>

text \<open>
  The abstract contract of the submitter: a 2xx response is a \<open>Success\<close> carrying the
  body's \<open>description\<close>; an error response is a \<open>Failure\<close> carrying the description
  when there is one and \<open>An error occurred\<close> otherwise; no response at all is that
  generic \<open>Failure\<close>. A 2xx response without a description is outside the contract
  (\<open>None\<close>). The banner shows an outcome as its variant and its text.
\<close>

datatype submission_outcome = Success js_string | Failure js_string

primrec body_description :: "response_body \<Rightarrow> js_string option" where
  "body_description Body_nullish = None"
| "body_description (Body_object d) = d"

definition generic_failure :: js_string where
  "generic_failure = ''An error occurred''"

primrec submit_spec :: "http_outcome \<Rightarrow> submission_outcome option" where
  "submit_spec (Http_ok b) = map_option Success (body_description b)"
| "submit_spec (Http_error b) =
     Some (Failure (case body_description b of
                      Some m \<Rightarrow> if m \<noteq> [] then m else generic_failure
                    | None \<Rightarrow> generic_failure))"
| "submit_spec No_response = Some (Failure generic_failure)"

primrec outcome_banner :: "submission_outcome \<Rightarrow> js_string \<times> js_string" where
  "outcome_banner (Success m) = (''success'', m)"
| "outcome_banner (Failure m) = (''danger'', m)"

declare initial_alert_def [form_eval] initial_form_state_def [form_eval] data_object_def [form_eval]
  prop_string_def [form_eval] date_of_birth_def [form_eval] post_data_def [form_eval]
  set_alert_def [form_eval] clear_errors_def [form_eval] form_reset_def [form_eval]
  on_submit_begin_def [form_eval] js_or_def [form_eval] try_block_def [form_eval]
  catch_block_def [form_eval] on_settled_def [form_eval] handle_submit_def [form_eval]
  settle_def [form_eval] edit_field_def [form_eval] banner_def [form_eval]

section \<open>Lemmas\<close>

subsection \<open>The request body\<close>

lemma obj_get_data_object:
  "obj_get (data_object vals) (field_name f) = Some (vals f)"
  by (cases f) (simp_all add: data_object_def registered_fields_def obj_get_def)

lemma date_of_birth_data_object:
  "date_of_birth (data_object vals) =
     vals Year @ ''-'' @ pad_start 2 ''0'' (vals Month) @ ''-'' @ pad_start 2 ''0'' (vals Day)"
  using obj_get_data_object [of vals Year] obj_get_data_object [of vals Month]
    obj_get_data_object [of vals Day]
  by (simp add: date_of_birth_def prop_string_def)

lemma obj_get_post_data:
  "obj_get (post_data data) k =
     (if k \<in> {''day'', ''month'', ''year''} then None
      else if k = ''date_of_birth'' then Some (date_of_birth data) else obj_get data k)"
  by (simp add: post_data_def obj_get_delete obj_get_obj_set)

text \<open>
  C16. The request body is the form's values under their field names, without day, month and
  year, with \<open>date_of_birth\<close> appended last; \<open>confirm_password\<close> is sent along with the
  password.
\<close>

theorem post_data_data_object:
  "post_data (data_object vals) =
     [(''full_name'', vals Full_name), (''contact_number'', vals Contact_number),
      (''email'', vals Email), (''password'', vals Password),
      (''confirm_password'', vals Confirm_password),
      (''date_of_birth'',
       vals Year @ ''-'' @ pad_start 2 ''0'' (vals Month) @ ''-'' @ pad_start 2 ''0'' (vals Day))]"
  unfolding post_data_def date_of_birth_data_object
  by (simp add: obj_set_def obj_delete_def data_object_def registered_fields_def)

text \<open>
  C14. For a day, month and year taken from the select boxes (the current year between 1099
  and 9999), the composed date is a four-digit year, a two-digit month and a two-digit day
  joined by hyphens, and parsing the three parts as decimals gives back the selected day,
  month and year, whatever the calendar says of the date.
\<close>

theorem date_of_birth_roundtrip:
  assumes "vals Day \<in> set day_values" "vals Month \<in> set month_values"
    "vals Year \<in> set (year_values cy)" "1099 \<le> cy" "cy \<le> 9999"
  shows "\<exists>d m y. 1 \<le> d \<and> d \<le> 31 \<and> 1 \<le> m \<and> m \<le> 12 \<and> cy - 99 \<le> int y \<and> int y \<le> cy \<and>
           parse_decimal (vals Day) = Some d \<and> parse_decimal (vals Month) = Some m \<and>
           parse_decimal (vals Year) = Some y \<and>
           (\<exists>ys ms ds. date_of_birth (data_object vals) = ys @ ''-'' @ ms @ ''-'' @ ds \<and>
              length ys = 4 \<and> length ms = 2 \<and> length ds = 2 \<and>
              parse_decimal ys = Some y \<and> parse_decimal ms = Some m \<and> parse_decimal ds = Some d)"
proof -
  obtain d where d: "1 \<le> d" "d \<le> 31" "vals Day = nat_str d"
    using assms(1) by (auto simp: day_values_member)
  obtain m where m: "1 \<le> m" "m \<le> 12" "vals Month = pad_start 2 ''0'' (nat_str m)"
    using assms(2) by (auto simp: month_values_member)
  obtain y where y: "cy - 99 \<le> int y" "int y \<le> cy" "vals Year = nat_str y"
    using assms(3-4) by (auto simp: year_values_member)
  have "length (nat_str y) = 4"
    using y assms(4-5) by (intro length_nat_str_four) simp_all
  moreover have "length (pad_start 2 ''0'' (nat_str n)) = 2" if "n < 100" for n
    using length_nat_str_le_two [OF that] by (simp add: length_pad_start_single)
  moreover have "date_of_birth (data_object vals) =
      nat_str y @ ''-'' @ pad_start 2 ''0'' (nat_str m) @ ''-'' @ pad_start 2 ''0'' (nat_str d)"
    using d m y by (simp add: date_of_birth_data_object pad_start_pad_start)
  ultimately have "\<exists>ys ms ds. date_of_birth (data_object vals) = ys @ ''-'' @ ms @ ''-'' @ ds \<and>
      length ys = 4 \<and> length ms = 2 \<and> length ds = 2 \<and>
      parse_decimal ys = Some y \<and> parse_decimal ms = Some m \<and> parse_decimal ds = Some d"
    using d m
    by (intro exI [of _ "nat_str y"] exI [of _ "pad_start 2 ''0'' (nat_str m)"]
        exI [of _ "pad_start 2 ''0'' (nat_str d)"])
       (simp add: parse_decimal_nat_str parse_decimal_pad_nat_str)
  then show ?thesis
    using d m y by (simp add: parse_decimal_nat_str parse_decimal_pad_nat_str)
qed

subsection \<open>Submitting\<close>

text \<open>
  C1. When a field is invalid, submitting records the errors and sends nothing; the banner of
  a previous attempt stays as it was.
\<close>

theorem handle_submit_invalid:
  assumes "form_errors (field_values st) \<noteq> []"
  shows "handle_submit st = (st\<lparr>errors := form_errors (field_values st), is_submitted := True\<rparr>, None) \<and>
         alert (fst (handle_submit st)) = alert st"
  using assms by (simp add: handle_submit_def)

text \<open>
  C17. When every field is valid, submitting clears the banner and the errors and sends the
  request body built from the current values.
\<close>

theorem handle_submit_valid:
  assumes "form_errors (field_values st) = []"
  shows "handle_submit st =
           (st\<lparr>errors := [], alert := initial_alert\<rparr>, Some (post_data (data_object (field_values st)))) \<and>
         banner (fst (handle_submit st)) = None"
  using assms
  by (simp add: handle_submit_def on_submit_begin_def clear_errors_def set_alert_def initial_alert_def
      banner_def js_truthy_def)

subsection \<open>The response\<close>

text \<open>
  C18. A 2xx response whose body is an object resets the form (values and errors cleared) and
  sets a success alert with the body's description.
\<close>

theorem settle_success_resets:
  "settle (Http_ok (Body_object d)) st =
     (st\<lparr>field_values := empty_values, errors := [], is_submitted := True,
         alert := \<lparr>message = d, alert_type = ''success''\<rparr>\<rparr>, None)"
  by (simp add: settle_def on_settled_def try_block_def form_reset_def set_alert_def)

text \<open>
  C19. Any other outcome keeps the values and the errors the user had, so the form can be
  corrected and sent again.
\<close>

theorem settle_failure_keeps_values:
  assumes "\<forall>d. r \<noteq> Http_ok (Body_object d)"
  shows "field_values (fst (settle r st)) = field_values st \<and> errors (fst (settle r st)) = errors st"
  using assms
  by (cases r) (auto simp: settle_def on_settled_def try_block_def catch_block_def set_alert_def
      split: response_body.splits)

text \<open>
  C2. The handler implements the submitter's contract: for every outcome the contract covers,
  except an error response whose body is null, the handler completes and the banner shows
  the contract's outcome (a non-empty message under its variant).
\<close>

theorem settle_refines_submit_spec:
  assumes "submit_spec r = Some out" "r \<noteq> Http_error Body_nullish"
    and "snd (outcome_banner out) \<noteq> []"
  shows "snd (settle r st) = None \<and> banner (fst (settle r st)) = Some (outcome_banner out)"
  using assms
  by (cases r) (auto simp: settle_def on_settled_def try_block_def catch_block_def set_alert_def form_reset_def
        banner_def js_or_def js_truthy_def generic_failure_def
      split: option.splits response_body.splits)

text \<open>
  C20. An error response whose body is \<open>null\<close> makes the \<open>catch\<close> block itself throw a
  \<open>TypeError\<close>: the handler rejects and the banner, cleared when the request was sent,
  shows nothing.
\<close>

theorem null_error_body_rejects:
  assumes "handle_submit st = (st1, Some p)"
  shows "settle (Http_error Body_nullish) st1 = (st1\<lparr>is_submitted := True\<rparr>, Some TypeError) \<and>
         banner (fst (settle (Http_error Body_nullish) st1)) = None"
  using assms
  by (auto simp: handle_submit_def on_submit_begin_def clear_errors_def set_alert_def settle_def
      on_settled_def try_block_def catch_block_def banner_def js_truthy_def Let_def
      split: if_splits prod.splits)

subsection \<open>Witnesses\<close>

lemma form_errors_sample:
  "form_errors (empty_values(Full_name := ''Jane Doe'', Contact_number := ''(416) 555-0199'',
     Day := ''15'', Month := ''06'', Year := ''1990'', Email := ''jane@example.com'',
     Password := ''Abcdef12'', Confirm_password := ''Abcdef12'')) = []"
  by (simp add: form_errors_Nil_iff registered_fields_def field_error_simps empty_values_def rx_eval)

lemma sample_select_values:
  "''15'' \<in> set day_values" "''06'' \<in> set month_values" "''1990'' \<in> set (year_values 2026)"
proof -
  show "''15'' \<in> set day_values"
    by (simp add: day_values_member) (rule exI [of _ 15], simp add: nat_str.simps form_eval)
  show "''06'' \<in> set month_values" by (simp add: month_values_def)
  show "''1990'' \<in> set (year_values 2026)"
    by (simp add: year_values_member) (rule exI [of _ 1990], simp add: nat_str.simps form_eval)
qed

theorem date_of_birth_roundtrip_witness:
  "(empty_values(Day := ''15'', Month := ''06'', Year := ''1990'')) Day \<in> set day_values \<and>
   (empty_values(Day := ''15'', Month := ''06'', Year := ''1990'')) Month \<in> set month_values \<and>
   (empty_values(Day := ''15'', Month := ''06'', Year := ''1990'')) Year \<in> set (year_values 2026) \<and>
   (\<exists>d m y. 1 \<le> d \<and> d \<le> 31 \<and> 1 \<le> m \<and> m \<le> 12 \<and> 2026 - 99 \<le> int y \<and> int y \<le> 2026 \<and>
      parse_decimal ''15'' = Some d \<and> parse_decimal ''06'' = Some m \<and> parse_decimal ''1990'' = Some y \<and>
      (\<exists>ys ms ds. ''1990-06-15'' = ys @ ''-'' @ ms @ ''-'' @ ds \<and>
         length ys = 4 \<and> length ms = 2 \<and> length ds = 2 \<and>
         parse_decimal ys = Some y \<and> parse_decimal ms = Some m \<and> parse_decimal ds = Some d))"
proof -
  let ?v = "empty_values(Day := ''15'', Month := ''06'', Year := ''1990'')"
  have day: "?v Day \<in> set day_values" and month: "?v Month \<in> set month_values"
    and year: "?v Year \<in> set (year_values 2026)"
    using sample_select_values by simp_all
  have "date_of_birth (data_object ?v) = ''1990-06-15''"
    by (simp add: date_of_birth_data_object pad_start_single)
  then show ?thesis
    using date_of_birth_roundtrip [of ?v 2026, OF day month year] day month year by simp
qed

theorem handle_submit_invalid_witness:
  "form_errors (field_values initial_form_state) \<noteq> [] \<and>
   handle_submit initial_form_state =
     (initial_form_state\<lparr>errors := form_errors (field_values initial_form_state),
        is_submitted := True\<rparr>, None) \<and>
   alert (fst (handle_submit initial_form_state)) = alert initial_form_state"
proof -
  have "form_errors (field_values initial_form_state) \<noteq> []"
    using form_errors_member [of Full_name "''Full name is required''" empty_values]
    by (auto simp: initial_form_state_def field_error_simps empty_values_def)
  then show ?thesis using handle_submit_invalid [of initial_form_state] by simp
qed

theorem handle_submit_valid_witness:
  "form_errors (field_values (initial_form_state\<lparr>field_values := empty_values(
      Full_name := ''Jane Doe'', Contact_number := ''(416) 555-0199'', Day := ''15'',
      Month := ''06'', Year := ''1990'', Email := ''jane@example.com'',
      Password := ''Abcdef12'', Confirm_password := ''Abcdef12'')\<rparr>)) = [] \<and>
   banner (fst (handle_submit (initial_form_state\<lparr>field_values := empty_values(
      Full_name := ''Jane Doe'', Contact_number := ''(416) 555-0199'', Day := ''15'',
      Month := ''06'', Year := ''1990'', Email := ''jane@example.com'',
      Password := ''Abcdef12'', Confirm_password := ''Abcdef12'')\<rparr>))) = None"
proof -
  let ?st = "initial_form_state\<lparr>field_values := empty_values(
      Full_name := ''Jane Doe'', Contact_number := ''(416) 555-0199'', Day := ''15'',
      Month := ''06'', Year := ''1990'', Email := ''jane@example.com'',
      Password := ''Abcdef12'', Confirm_password := ''Abcdef12'')\<rparr>"
  have valid: "form_errors (field_values ?st) = []" by (simp add: form_errors_sample)
  show ?thesis using valid handle_submit_valid [OF valid] by blast
qed

theorem settle_failure_keeps_values_witness:
  "(\<forall>d. No_response \<noteq> Http_ok (Body_object d)) \<and>
   field_values (fst (settle No_response initial_form_state)) = field_values initial_form_state \<and>
   errors (fst (settle No_response initial_form_state)) = errors initial_form_state"
  using settle_failure_keeps_values [of No_response initial_form_state] by simp

theorem settle_refines_submit_spec_witness:
  "submit_spec (Http_error (Body_object (Some ''Email already exists''))) =
     Some (Failure ''Email already exists'') \<and>
   Http_error (Body_object (Some ''Email already exists'')) \<noteq> Http_error Body_nullish \<and>
   snd (outcome_banner (Failure ''Email already exists'')) \<noteq> [] \<and>
   snd (settle (Http_error (Body_object (Some ''Email already exists''))) initial_form_state) = None \<and>
   banner (fst (settle (Http_error (Body_object (Some ''Email already exists''))) initial_form_state)) =
     Some (''danger'', ''Email already exists'')"
  using settle_refines_submit_spec [of "Http_error (Body_object (Some ''Email already exists''))"
      "Failure ''Email already exists''" initial_form_state]
  by simp

theorem null_error_body_rejects_witness:
  "snd (handle_submit (initial_form_state\<lparr>field_values := empty_values(
      Full_name := ''Jane Doe'', Contact_number := ''(416) 555-0199'', Day := ''15'',
      Month := ''06'', Year := ''1990'', Email := ''jane@example.com'',
      Password := ''Abcdef12'', Confirm_password := ''Abcdef12'')\<rparr>)) \<noteq> None \<and>
   banner (fst (settle (Http_error Body_nullish) (fst (handle_submit (initial_form_state\<lparr>field_values :=
      empty_values(Full_name := ''Jane Doe'', Contact_number := ''(416) 555-0199'', Day := ''15'',
      Month := ''06'', Year := ''1990'', Email := ''jane@example.com'',
      Password := ''Abcdef12'', Confirm_password := ''Abcdef12'')\<rparr>))))) = None"
proof -
  let ?st = "initial_form_state\<lparr>field_values := empty_values(
      Full_name := ''Jane Doe'', Contact_number := ''(416) 555-0199'', Day := ''15'',
      Month := ''06'', Year := ''1990'', Email := ''jane@example.com'',
      Password := ''Abcdef12'', Confirm_password := ''Abcdef12'')\<rparr>"
  have sent: "handle_submit ?st = (fst (handle_submit ?st), Some (the (snd (handle_submit ?st))))"
    by (simp add: handle_submit_def form_errors_sample on_submit_begin_def)
  have "snd (handle_submit ?st) \<noteq> None" by (subst sent) simp
  then show ?thesis
    using null_error_body_rejects [OF sent] by blast
qed

end
