(* ===== verification/Browser.thy ===== *)
theory Browser
  imports FormRules
begin

text \<open>
  What the browser does with the form's controls before any script sees them, from the
  HTML standard. The form renders a plain \<open><form>\<close> (react-bootstrap's \<open>Form\<close>, line 74) with
  no \<open>noValidate\<close>, a submit button (line 276) and inputs of types \<open>text\<close>, \<open>tel\<close>,
  \<open>email\<close> and \<open>password\<close> and three selects, none with a \<open>required\<close>, \<open>pattern\<close> or length
  attribute (\<open>register\<close> returns only \<open>name\<close>, \<open>onChange\<close>, \<open>onBlur\<close> and \<open>ref\<close>).
  \<^item> Value sanitisation: the value of a text, tel or password input has its line breaks
    stripped; the value of an email input also loses its leading and trailing ASCII
    whitespace (\<open>dom_value\<close>). The \<open>onChange\<close> handler reads this sanitised value.
  \<^item> Constraint validation: an email input whose value is neither empty nor a valid
    e-mail address (\<open>valid_email_address\<close>, the standard's ABNF) suffers from a type
    mismatch; no other control of the form can be invalid. When the submit button is
    clicked with an invalid control, interactive validation reports it and the
    \<open>submit\<close> event is never fired (\<open>form_constraints_ok\<close>), so \<open>handleSubmit\<close> does not run.
\<close>

section \<open>Value sanitisation\<close>

definition is_ascii_white_space :: "char \<Rightarrow> bool" where
  "is_ascii_white_space ch \<longleftrightarrow> code_unit ch \<in> {9, 10, 12, 13, 32}"

definition strip_newlines :: "js_string \<Rightarrow> js_string" where
  "strip_newlines v = filter (\<lambda>ch. code_unit ch \<noteq> 10 \<and> code_unit ch \<noteq> 13) v"

definition strip_ascii_white_space :: "js_string \<Rightarrow> js_string" where
  "strip_ascii_white_space v =
     rev (dropWhile is_ascii_white_space (rev (dropWhile is_ascii_white_space v)))"

text \<open>The value a control reports after the user has entered \<open>v\<close>.\<close>

definition dom_value :: "field \<Rightarrow> js_string \<Rightarrow> js_string" where
  "dom_value f v =
     (case f of
        Email \<Rightarrow> strip_ascii_white_space (strip_newlines v)
      | Day \<Rightarrow> v | Month \<Rightarrow> v | Year \<Rightarrow> v
      | _ \<Rightarrow> strip_newlines v)"

section \<open>Valid e-mail addresses\<close>

text \<open>
  \<open>email = 1*( atext / "." ) "@" label *( "." label )\<close>, with
  \<open>label = let-dig [ [ ldh-str ] let-dig ]\<close> of at most 63 characters and \<open>atext\<close> from
  RFC 5322 (letters, digits and \<^verbatim>\<open>!#$%&'*+-/=?^_`{|}~\<close>).
\<close>

definition is_let_dig :: "char \<Rightarrow> bool" where
  "is_let_dig ch \<longleftrightarrow> is_ascii_letter ch \<or> is_decimal_digit ch"

definition is_ldh :: "char \<Rightarrow> bool" where
  "is_ldh ch \<longleftrightarrow> is_let_dig ch \<or> ch = CHR ''-''"

definition is_local_char :: "char \<Rightarrow> bool" where
  "is_local_char ch \<longleftrightarrow>
     is_let_dig ch \<or> ch \<in> set (''.!#$%&*+-/=?^_{|}~'' @ [char_of (39::nat), char_of (96::nat)])"

definition valid_label :: "js_string \<Rightarrow> bool" where
  "valid_label l \<longleftrightarrow>
     l \<noteq> [] \<and> length l \<le> 63 \<and> list_all is_ldh l \<and> is_let_dig (hd l) \<and> is_let_dig (last l)"

text \<open>
  \<open>domain_labels cur d\<close> scans the rest \<open>d\<close> of a domain whose current label so far
  is \<open>cur\<close> (reversed): every label that a dot or the end closes must be valid.
\<close>

fun domain_labels :: "js_string \<Rightarrow> js_string \<Rightarrow> bool" where
  "domain_labels cur [] = valid_label (rev cur)"
| "domain_labels cur (ch # rest) =
     (if ch = CHR ''.'' then valid_label (rev cur) \<and> domain_labels [] rest
      else domain_labels (ch # cur) rest)"

definition valid_domain :: "js_string \<Rightarrow> bool" where
  "valid_domain d = domain_labels [] d"

definition valid_email_address :: "js_string \<Rightarrow> bool" where
  "valid_email_address w =
     (let local = takeWhile (\<lambda>ch. ch \<noteq> CHR ''@'') w in
      local \<noteq> [] \<and> list_all is_local_char local \<and>
      (case dropWhile (\<lambda>ch. ch \<noteq> CHR ''@'') w of
         [] \<Rightarrow> False
       | _ # domain \<Rightarrow> valid_domain domain))"

section \<open>Constraint validation\<close>

text \<open>
  The email input suffers from a type mismatch when its value is neither empty nor a
  valid e-mail address; the form passes interactive validation when no control does.
\<close>

definition email_type_mismatch :: "js_string \<Rightarrow> bool" where
  "email_type_mismatch v \<longleftrightarrow> v \<noteq> [] \<and> \<not> valid_email_address v"

definition control_invalid :: "field \<Rightarrow> js_string \<Rightarrow> bool" where
  "control_invalid f v = (case f of Email \<Rightarrow> email_type_mismatch v | _ \<Rightarrow> False)"

definition form_constraints_ok :: "form_values \<Rightarrow> bool" where
  "form_constraints_ok vals \<longleftrightarrow> list_all (\<lambda>f. \<not> control_invalid f (vals f)) registered_fields"

declare is_ascii_white_space_def [form_eval] strip_newlines_def [form_eval]
  strip_ascii_white_space_def [form_eval] dom_value_def [form_eval] is_let_dig_def [form_eval]
  is_ldh_def [form_eval] is_local_char_def [form_eval] valid_label_def [form_eval]
  domain_labels.simps [form_eval] valid_domain_def [form_eval] valid_email_address_def [form_eval]
  email_type_mismatch_def [form_eval] control_invalid_def [form_eval]
  form_constraints_ok_def [form_eval] is_ascii_letter_def [form_eval] is_ascii_upper_def [form_eval]
  is_ascii_lower_def [form_eval]

section \<open>Lemmas\<close>

lemma domain_labels_chars:
  "domain_labels cur d \<Longrightarrow> list_all (\<lambda>ch. is_ldh ch \<or> ch = CHR ''.'') d \<and> list_all is_ldh cur"
  by (induction cur d rule: domain_labels.induct) (auto simp: valid_label_def split: if_splits)

lemma domain_labels_Nil_nonempty:
  "domain_labels [] d \<Longrightarrow> d \<noteq> []"
  by (auto simp: valid_label_def)

text \<open>A dot in a valid domain closes a non-empty label and is followed by another one.\<close>

lemma domain_labels_dot:
  "domain_labels cur d \<Longrightarrow> CHR ''.'' \<in> set d \<Longrightarrow>
   \<exists>a b. d = a @ CHR ''.'' # b \<and> rev cur @ a \<noteq> [] \<and> b \<noteq> []"
proof (induction cur d rule: domain_labels.induct)
  case (2 cur ch rest)
  show ?case
  proof (cases "ch = CHR ''.''")
    case True
    with "2.prems"(1) have "cur \<noteq> []" "rest \<noteq> []"
      by (auto simp: valid_label_def dest: domain_labels_Nil_nonempty)
    with True show ?thesis by (intro exI [of _ "[]"] exI [of _ rest]) simp
  next
    case False
    with "2.prems" "2.IH"(2) obtain a b where "rest = a @ CHR ''.'' # b" "b \<noteq> []" by auto
    with False show ?thesis by (intro exI [of _ "ch # a"] exI [of _ b]) simp
  qed
qed simp

lemma valid_email_address_split:
  assumes "valid_email_address w"
  obtains l d where "w = l @ CHR ''@'' # d" "l \<noteq> []" "list_all is_local_char l"
    "valid_domain d" "dropWhile (\<lambda>ch. ch \<noteq> CHR ''@'') w = CHR ''@'' # d"
proof -
  let ?P = "\<lambda>ch. ch \<noteq> CHR ''@''"
  obtain x d where dw: "dropWhile ?P w = x # d" and dom: "valid_domain d"
    using assms by (auto simp: valid_email_address_def Let_def split: list.splits)
  have "x = CHR ''@''" using dw hd_dropWhile [of ?P w] by fastforce
  moreover have "w = takeWhile ?P w @ dropWhile ?P w" by simp
  ultimately show ?thesis
    using that [of "takeWhile ?P w" d] assms dw dom by (auto simp: valid_email_address_def Let_def)
qed

lemma email_chars_not_space:
  "is_local_char ch \<Longrightarrow> \<not> is_js_white_space ch"
  "is_ldh ch \<or> ch = CHR ''.'' \<Longrightarrow> \<not> is_js_white_space ch"
  by (auto simp: is_local_char_def is_ldh_def is_let_dig_def is_ascii_letter_def is_ascii_upper_def
      is_ascii_lower_def is_decimal_digit_def is_js_white_space_def)

text \<open>
  C11. On the addresses the browser lets through, the form's email pattern rejects exactly
  those whose domain part has no dot, such as \<open>jane@localhost\<close>. Since the browser
  cancels a submit for every other non-empty value, these are the values for which a
  submit can report \<open>Invalid email format\<close>.
\<close>

theorem email_pattern_after_browser:
  assumes "valid_email_address v"
  shows "regexp_test False email_pattern v \<longleftrightarrow> CHR ''.'' \<in> set (dropWhile (\<lambda>ch. ch \<noteq> CHR ''@'') v)"
proof -
  have js: "regexp_test False email_pattern v \<longleftrightarrow>
     (\<exists>local domain tld.
        local \<noteq> [] \<and> (\<forall>ch\<in>set local. \<not> is_js_white_space ch) \<and>
        domain \<noteq> [] \<and> (\<forall>ch\<in>set domain. \<not> is_js_white_space ch) \<and>
        tld \<noteq> [] \<and> (\<forall>ch\<in>set tld. \<not> is_js_white_space ch) \<and>
        v = local @ ''@'' @ domain @ ''.'' @ tld)"
    unfolding email_pattern_def
    by (subst regexp_test_anchored_simple, simp)
       (simp only: ex_list_all2_Cons ex_list_all2_Nil char_piece non_space_piece
        concat.simps append_Nil2 conj_assoc ex_simps simp_thms append.simps)
  obtain l d where v: "v = l @ CHR ''@'' # d" and l: "l \<noteq> []" "list_all is_local_char l"
    and d: "valid_domain d" and dw: "dropWhile (\<lambda>ch. ch \<noteq> CHR ''@'') v = CHR ''@'' # d"
    using assms by (rule valid_email_address_split)
  show ?thesis
  proof
    assume "regexp_test False email_pattern v"
    then obtain a b c where "v = a @ CHR ''@'' # (b @ CHR ''.'' # c)" using js by auto
    then show "CHR ''.'' \<in> set (dropWhile (\<lambda>ch. ch \<noteq> CHR ''@'') v)"
      by (simp add: dropWhile_append3)
  next
    assume "CHR ''.'' \<in> set (dropWhile (\<lambda>ch. ch \<noteq> CHR ''@'') v)"
    then have "CHR ''.'' \<in> set d" using dw by simp
    then obtain a b where ab: "d = a @ CHR ''.'' # b" "a \<noteq> []" "b \<noteq> []"
      using domain_labels_dot [of "[]" d] d by (auto simp: valid_domain_def)
    have "list_all (\<lambda>ch. is_ldh ch \<or> ch = CHR ''.'') d"
      using d domain_labels_chars [of "[]" d] by (simp add: valid_domain_def)
    with l ab have "(\<forall>ch\<in>set l. \<not> is_js_white_space ch) \<and> (\<forall>ch\<in>set a. \<not> is_js_white_space ch) \<and>
        (\<forall>ch\<in>set b. \<not> is_js_white_space ch)"
      by (auto simp: list_all_iff email_chars_not_space)
    with js v l ab show "regexp_test False email_pattern v" by auto
  qed
qed

theorem email_pattern_after_browser_witness:
  "valid_email_address ''jane@localhost'' \<and> \<not> regexp_test False email_pattern ''jane@localhost''"
  using email_pattern_after_browser [of "''jane@localhost''"] by (simp add: form_eval)

end
