(* ===== verification/Workflow.thy ===== *)
theory Workflow
  imports Submit Browser
begin

text \<open>
  The registration form as the user drives it: the component's state together with the
  requests that have been sent and not yet answered. Events are a change of one field,
  a click on the submit button, and the settling of one in-flight request with some
  outcome; requests may settle in any order, and nothing prevents a second submit while
  a first request is in flight (the form has no in-flight guard). An edit stores the value
  the browser reports for the control (\<open>dom_value\<close>), and a click on the submit button
  does nothing when the browser's constraint validation fails (\<open>form_constraints_ok\<close>):
  the \<open>submit\<close> event, and with it \<open>handleSubmit\<close>, never runs. \<open>sys_step\<close> is one
  event (\<open>None\<close> when the event cannot happen), \<open>run\<close> a sequence of them and
  \<open>reachable\<close> the states a session can reach. A select box can only take the values of
  its options, which depend on the current year \<open>cy\<close> (line 186).
\<close>

section \<open>Sessions\<close>

record session =
  form :: form_state
  inflight :: "js_object list"

definition initial_session :: session where
  "initial_session = \<lparr>form = initial_form_state, inflight = []\<rparr>"

datatype event = Edit field js_string | Submit_click | Settle nat http_outcome

definition allowed_value :: "int \<Rightarrow> field \<Rightarrow> js_string \<Rightarrow> bool" where
  "allowed_value cy f v = (case select_values cy f of None \<Rightarrow> True | Some vs \<Rightarrow> v \<in> set vs)"

fun sys_step :: "int \<Rightarrow> event \<Rightarrow> session \<Rightarrow> session option" where
  "sys_step cy (Edit f v) s =
     (if allowed_value cy f v then Some (s\<lparr>form := edit_field f (dom_value f v) (form s)\<rparr>) else None)"
| "sys_step cy Submit_click s =
     (if \<not> form_constraints_ok (field_values (form s)) then Some s
      else case handle_submit (form s) of
        (st', None) \<Rightarrow> Some (s\<lparr>form := st'\<rparr>)
      | (st', Some body) \<Rightarrow> Some (s\<lparr>form := st', inflight := inflight s @ [body]\<rparr>))"
| "sys_step cy (Settle i r) s =
     (if i < length (inflight s)
      then Some (s\<lparr>form := fst (settle r (form s)), inflight := take i (inflight s) @ drop (Suc i) (inflight s)\<rparr>)
      else None)"

fun run :: "int \<Rightarrow> event list \<Rightarrow> session \<Rightarrow> session option" where
  "run cy [] s = Some s"
| "run cy (e # es) s = (case sys_step cy e s of None \<Rightarrow> None | Some s' \<Rightarrow> run cy es s')"

inductive reachable :: "int \<Rightarrow> session \<Rightarrow> bool" for cy where
  reach_init: "reachable cy initial_session"
| reach_step: "reachable cy s \<Longrightarrow> sys_step cy e s = Some s' \<Longrightarrow> reachable cy s'"

section \<open>Requests built from a valid form\<close>

text \<open>
  The values a request body was built from, given the select values it was composed
  from: every other field is read back from the body under its name.
\<close>

definition request_values :: "js_object \<Rightarrow> js_string \<Rightarrow> js_string \<Rightarrow> js_string \<Rightarrow> form_values" where
  "request_values p d m y f =
     (case f of Day \<Rightarrow> d | Month \<Rightarrow> m | Year \<Rightarrow> y | _ \<Rightarrow> prop_string p (field_name f))"

text \<open>
  A request is valid when it is the body \<open>onSubmit\<close> builds from a form that passes every
  rule and whose selects hold option values.
\<close>

definition valid_request :: "int \<Rightarrow> js_object \<Rightarrow> bool" where
  "valid_request cy p \<longleftrightarrow>
     (\<exists>d\<in>set day_values. \<exists>m\<in>set month_values. \<exists>y\<in>set (year_values cy).
        form_errors (request_values p d m y) = [] \<and> p = post_data (data_object (request_values p d m y)))"

definition session_inv :: "int \<Rightarrow> session \<Rightarrow> bool" where
  "session_inv cy s \<longleftrightarrow>
     list_all (\<lambda>f. allowed_value cy f (field_values (form s) f)) registered_fields \<and>
     list_all (valid_request cy) (inflight s) \<and>
     list_all (\<lambda>p. valid_email_address (prop_string p ''email'')) (inflight s)"

section \<open>Lemmas\<close>

subsection \<open>Runs and reachability\<close>

lemma run_append:
  "run cy (es @ fs) s = (case run cy es s of None \<Rightarrow> None | Some s' \<Rightarrow> run cy fs s')"
  by (induction es arbitrary: s) (auto split: option.split)

lemma reachable_run:
  "reachable cy s \<longleftrightarrow> (\<exists>es. run cy es initial_session = Some s)"
proof
  assume "reachable cy s"
  then show "\<exists>es. run cy es initial_session = Some s"
  proof (induction rule: reachable.induct)
    case reach_init
    show ?case by (rule exI [of _ "[]"]) simp
  next
    case (reach_step s e s')
    then obtain es where "run cy es initial_session = Some s" by blast
    with reach_step.hyps(2) show ?case
      by (intro exI [of _ "es @ [e]"]) (simp add: run_append)
  qed
next
  have "reachable cy s \<Longrightarrow> run cy es s = Some s' \<Longrightarrow> reachable cy s'" for es s s'
    by (induction es arbitrary: s) (auto split: option.splits intro: reachable.reach_step)
  then show "\<exists>es. run cy es initial_session = Some s \<Longrightarrow> reachable cy s"
    using reachable.reach_init by blast
qed

subsection \<open>What each step does to the form\<close>

lemma field_values_handle_submit [simp]:
  "field_values (fst (handle_submit st)) = field_values st"
  by (simp add: handle_submit_def on_submit_begin_def clear_errors_def set_alert_def Let_def)

lemma handle_submit_sends:
  "snd (handle_submit st) = Some p \<Longrightarrow>
   form_errors (field_values st) = [] \<and> p = post_data (data_object (field_values st))"
  by (auto simp: handle_submit_def on_submit_begin_def Let_def split: if_splits)

lemma field_values_settle:
  "field_values (fst (settle r st)) = field_values st \<or> field_values (fst (settle r st)) = empty_values"
  by (cases r) (auto simp: settle_def on_settled_def try_block_def catch_block_def set_alert_def
      form_reset_def split: response_body.splits)

lemma settle_errors:
  "is_submitted (fst (settle r st)) \<and>
   ((field_values (fst (settle r st)) = field_values st \<and> errors (fst (settle r st)) = errors st) \<or>
    errors (fst (settle r st)) = [])"
  by (cases r) (auto simp: settle_def on_settled_def try_block_def catch_block_def set_alert_def
      form_reset_def split: response_body.splits)

lemma allowed_value_empty:
  "allowed_value cy f []"
  by (cases f) (simp_all add: allowed_value_def)

lemma allowed_value_nonempty_select:
  "allowed_value cy Day v \<Longrightarrow> v \<noteq> [] \<Longrightarrow> v \<in> set day_values"
  "allowed_value cy Month v \<Longrightarrow> v \<noteq> [] \<Longrightarrow> v \<in> set month_values"
  "allowed_value cy Year v \<Longrightarrow> v \<noteq> [] \<Longrightarrow> v \<in> set (year_values cy)"
  by (simp_all add: allowed_value_def)

lemma list_all_registered_fields:
  "list_all P registered_fields \<longleftrightarrow> (\<forall>f. P f)"
proof -
  have "f \<in> set registered_fields" for f by (cases f) (simp_all add: registered_fields_def)
  then show ?thesis by (auto simp: list_all_iff)
qed

lemma allowed_value_dom_value:
  "allowed_value cy f v \<Longrightarrow> allowed_value cy f (dom_value f v)"
  by (cases f) (simp_all add: dom_value_def allowed_value_def)

lemma form_constraints_ok_iff:
  "form_constraints_ok vals \<longleftrightarrow> \<not> email_type_mismatch (vals Email)"
  by (simp add: form_constraints_ok_def registered_fields_def control_invalid_def)

subsection \<open>Every request in flight was built from a valid form\<close>

lemma request_values_post_data:
  "request_values (post_data (data_object vals)) (vals Day) (vals Month) (vals Year) = vals"
proof
  fix f
  show "request_values (post_data (data_object vals)) (vals Day) (vals Month) (vals Year) f = vals f"
    using obj_get_data_object [of vals f]
    by (cases f) (simp_all add: request_values_def prop_string_def obj_get_post_data)
qed

lemma valid_request_post_data:
  assumes "form_errors vals = []" "\<forall>f. allowed_value cy f (vals f)"
  shows "valid_request cy (post_data (data_object vals))"
proof -
  have "field_error vals Day = None" "field_error vals Month = None" "field_error vals Year = None"
    using assms(1) by (simp_all add: form_errors_Nil_iff registered_fields_def)
  then have "vals Day \<noteq> []" "vals Month \<noteq> []" "vals Year \<noteq> []"
    by (simp_all add: field_error_Day field_error_Month field_error_Year split: if_splits)
  then have "vals Day \<in> set day_values" "vals Month \<in> set month_values"
    "vals Year \<in> set (year_values cy)"
    using assms(2) allowed_value_nonempty_select by blast+
  then show ?thesis
    using assms(1) request_values_post_data [of vals] unfolding valid_request_def by metis
qed

lemma sent_email_valid:
  assumes "form_constraints_ok vals" "form_errors vals = []"
  shows "valid_email_address (prop_string (post_data (data_object vals)) ''email'')"
proof -
  have "field_error vals Email = None"
    using assms(2) by (simp add: form_errors_Nil_iff registered_fields_def)
  then have "vals Email \<noteq> []" by (simp add: field_error_Email split: if_splits)
  moreover have "prop_string (post_data (data_object vals)) ''email'' = vals Email"
    using fun_cong [OF request_values_post_data [of vals], of Email] by (simp add: request_values_def)
  ultimately show ?thesis
    using assms(1) by (simp add: form_constraints_ok_iff email_type_mismatch_def)
qed

lemma session_inv_step:
  assumes "session_inv cy s" "sys_step cy e s = Some s'"
  shows "session_inv cy s'"
proof (cases e)
  case (Edit f v)
  with assms show ?thesis
    by (auto simp: session_inv_def list_all_registered_fields edit_field_def Let_def
        allowed_value_dom_value split: if_splits)
next
  case Submit_click
  obtain st' req where hs: "handle_submit (form s) = (st', req)" by (cases "handle_submit (form s)")
  have same: "field_values st' = field_values (form s)"
    using field_values_handle_submit [of "form s"] hs by simp
  show ?thesis
  proof (cases "form_constraints_ok (field_values (form s))")
    case False
    with assms Submit_click show ?thesis by simp
  next
    case ok: True
    show ?thesis
    proof (cases req)
      case None
      with assms Submit_click hs same ok show ?thesis by (auto simp: session_inv_def)
    next
      case (Some p)
      with hs handle_submit_sends [of "form s" p] have errs: "form_errors (field_values (form s)) = []"
        and p: "p = post_data (data_object (field_values (form s)))" by simp_all
      moreover have "\<forall>f. allowed_value cy f (field_values (form s) f)"
        using assms(1) by (simp add: session_inv_def list_all_registered_fields)
      ultimately have "valid_request cy p" by (simp add: valid_request_post_data)
      moreover have "valid_email_address (prop_string p ''email'')"
        using sent_email_valid [OF ok errs] p by simp
      ultimately show ?thesis
        using assms Submit_click hs same Some ok by (auto simp: session_inv_def)
    qed
  qed
next
  case (Settle i r)
  have keep: "list_all P (take i xs @ drop (Suc i) xs)" if "list_all P xs" for P and xs :: "js_object list"
    using that by (auto simp: list_all_iff dest: in_set_takeD in_set_dropD)
  have vals: "\<forall>f. allowed_value cy f (field_values (fst (settle r (form s))) f)"
    using assms(1) field_values_settle [of r "form s"]
    by (auto simp: session_inv_def list_all_registered_fields allowed_value_empty empty_values_def)
  from assms Settle show ?thesis
    using keep [of "valid_request cy" "inflight s"]
      keep [of "\<lambda>p. valid_email_address (prop_string p ''email'')" "inflight s"] vals
    by (auto simp: session_inv_def list_all_registered_fields split: if_splits)
qed

lemma reachable_session_inv:
  "reachable cy s \<Longrightarrow> session_inv cy s"
proof (induction rule: reachable.induct)
  case reach_init
  show ?case
    by (simp add: session_inv_def initial_session_def initial_form_state_def list_all_registered_fields
        allowed_value_empty empty_values_def)
next
  case (reach_step s e s')
  then show ?case using session_inv_step by blast
qed

text \<open>
  C3. Every request a session has in flight is the body \<open>onSubmit\<close> builds from a form that
  passes every validation rule and whose selects hold option values: no invalid data is
  ever sent.
\<close>

theorem reachable_requests_valid:
  "reachable cy s \<Longrightarrow> \<forall>p\<in>set (inflight s). valid_request cy p"
  using reachable_session_inv by (simp add: session_inv_def list_all_iff)

text \<open>
  C4. In every reachable session the error object is non-empty only after a submit, and every
  entry but the confirmation's is the error its field has with the current values: an
  error on screen is never stale, except the confirmation's after a change of the
  password.
\<close>

theorem reachable_errors_current:
  "reachable cy s \<Longrightarrow>
   (errors (form s) \<noteq> [] \<longrightarrow> is_submitted (form s)) \<and>
   list_all (\<lambda>(f, m). f = Confirm_password \<or> field_error (field_values (form s)) f = Some m)
     (errors (form s))"
proof (induction rule: reachable.induct)
  case reach_init
  show ?case by (simp add: initial_session_def initial_form_state_def)
next
  case (reach_step s e s')
  let ?vals = "field_values (form s)" and ?errs = "errors (form s)"
  show ?case
  proof (cases e)
    case (Edit f v)
    let ?vals' = "?vals(f := dom_value f v)"
    have "list_all (\<lambda>(g, m). g = Confirm_password \<or> field_error ?vals' g = Some m)
            (set_field_error f (field_error ?vals' f) ?errs)"
      using reach_step.IH field_error_own_value [of _ ?vals' ?vals]
      by (fastforce simp: list_all_iff dest: set_set_field_error)
    then show ?thesis
      using reach_step.IH reach_step.hyps(2) Edit
      by (auto simp: edit_field_def Let_def revalidate_def split: if_splits)
  next
    case Submit_click
    have "list_all (\<lambda>(g, m). g = Confirm_password \<or> field_error ?vals g = Some m) (form_errors ?vals)"
      by (auto simp: list_all_iff form_errors_member)
    with reach_step.IH reach_step.hyps(2) Submit_click show ?thesis
      by (auto simp: handle_submit_def on_submit_begin_def clear_errors_def set_alert_def Let_def
          split: if_splits)
  next
    case (Settle i r)
    with reach_step.IH reach_step.hyps(2) settle_errors [of r "form s"] show ?thesis
      by (auto split: if_splits)
  qed
qed

text \<open>
  C5. Every request a session has in flight carries under \<open>email\<close> a valid e-mail address
  in the sense of the HTML standard: the browser's check of the \<open>type='email'\<close> input
  cancels any submit whose email value is neither empty nor such an address, and the
  form's own \<open>required\<close> rule rejects the empty one.
\<close>

theorem reachable_requests_email_valid:
  "reachable cy s \<Longrightarrow> list_all (\<lambda>p. valid_email_address (prop_string p ''email'')) (inflight s)"
  using reachable_session_inv by (simp add: session_inv_def)

subsection \<open>Witnesses\<close>

lemma run_sample_submit:
  "\<exists>s. run 2026 [Edit Full_name ''Jane Doe'', Edit Contact_number ''(416) 555-0199'', Edit Day ''15'',
     Edit Month ''06'', Edit Year ''1990'', Edit Email ''jane@example.com'',
     Edit Password ''Abcdef12'', Edit Confirm_password ''Abcdef12'', Submit_click] initial_session = Some s \<and>
     field_values (form s) = empty_values(Full_name := ''Jane Doe'', Contact_number := ''(416) 555-0199'',
       Day := ''15'', Month := ''06'', Year := ''1990'', Email := ''jane@example.com'',
       Password := ''Abcdef12'', Confirm_password := ''Abcdef12'') \<and>
     length (inflight s) = 1"
  using sample_select_values
  by (simp add: initial_session_def allowed_value_def form_eval rx_eval form_errors_Nil_iff
      registered_fields_def field_error_simps del: set_map)

theorem reachable_requests_valid_witness:
  "reachable 2026 (the (run 2026 [Edit Full_name ''Jane Doe'', Edit Contact_number ''(416) 555-0199'',
      Edit Day ''15'', Edit Month ''06'', Edit Year ''1990'', Edit Email ''jane@example.com'',
      Edit Password ''Abcdef12'', Edit Confirm_password ''Abcdef12'', Submit_click] initial_session)) \<and>
   length (inflight (the (run 2026 [Edit Full_name ''Jane Doe'',
      Edit Contact_number ''(416) 555-0199'', Edit Day ''15'', Edit Month ''06'', Edit Year ''1990'',
      Edit Email ''jane@example.com'', Edit Password ''Abcdef12'', Edit Confirm_password ''Abcdef12'',
      Submit_click] initial_session))) = 1 \<and>
   valid_request 2026 (hd (inflight (the (run 2026 [Edit Full_name ''Jane Doe'',
      Edit Contact_number ''(416) 555-0199'', Edit Day ''15'', Edit Month ''06'', Edit Year ''1990'',
      Edit Email ''jane@example.com'', Edit Password ''Abcdef12'', Edit Confirm_password ''Abcdef12'',
      Submit_click] initial_session))))"
proof -
  let ?es = "[Edit Full_name ''Jane Doe'', Edit Contact_number ''(416) 555-0199'',
      Edit Day ''15'', Edit Month ''06'', Edit Year ''1990'', Edit Email ''jane@example.com'',
      Edit Password ''Abcdef12'', Edit Confirm_password ''Abcdef12'', Submit_click]"
  obtain s where run: "run 2026 ?es initial_session = Some s" and one: "length (inflight s) = 1"
    using run_sample_submit by blast
  then have "reachable 2026 s" using reachable_run by blast
  moreover from one have "hd (inflight s) \<in> set (inflight s)" by (cases "inflight s") simp_all
  ultimately show ?thesis using reachable_requests_valid [of 2026 s] run one by simp
qed

theorem reachable_requests_email_valid_witness:
  "reachable 2026 (the (run 2026 [Edit Full_name ''Jane Doe'', Edit Contact_number ''(416) 555-0199'',
      Edit Day ''15'', Edit Month ''06'', Edit Year ''1990'', Edit Email ''jane@example.com'',
      Edit Password ''Abcdef12'', Edit Confirm_password ''Abcdef12'', Submit_click] initial_session)) \<and>
   length (inflight (the (run 2026 [Edit Full_name ''Jane Doe'',
      Edit Contact_number ''(416) 555-0199'', Edit Day ''15'', Edit Month ''06'', Edit Year ''1990'',
      Edit Email ''jane@example.com'', Edit Password ''Abcdef12'', Edit Confirm_password ''Abcdef12'',
      Submit_click] initial_session))) = 1 \<and>
   valid_email_address (prop_string (hd (inflight (the (run 2026 [Edit Full_name ''Jane Doe'',
      Edit Contact_number ''(416) 555-0199'', Edit Day ''15'', Edit Month ''06'', Edit Year ''1990'',
      Edit Email ''jane@example.com'', Edit Password ''Abcdef12'', Edit Confirm_password ''Abcdef12'',
      Submit_click] initial_session)))) ''email'')"
proof -
  let ?es = "[Edit Full_name ''Jane Doe'', Edit Contact_number ''(416) 555-0199'',
      Edit Day ''15'', Edit Month ''06'', Edit Year ''1990'', Edit Email ''jane@example.com'',
      Edit Password ''Abcdef12'', Edit Confirm_password ''Abcdef12'', Submit_click]"
  obtain s where run: "run 2026 ?es initial_session = Some s" and one: "length (inflight s) = 1"
    using run_sample_submit by blast
  then have "reachable 2026 s" using reachable_run by blast
  moreover from one obtain p where "inflight s = [p]" by (cases "inflight s") auto
  ultimately show ?thesis using reachable_requests_email_valid [of 2026 s] run by simp
qed

theorem reachable_errors_current_witness:
  "reachable 2026 (the (run 2026 [Submit_click] initial_session)) \<and>
   errors (form (the (run 2026 [Submit_click] initial_session))) \<noteq> [] \<and>
   is_submitted (form (the (run 2026 [Submit_click] initial_session))) \<and>
   list_all (\<lambda>(f, m). f = Confirm_password \<or>
       field_error (field_values (form (the (run 2026 [Submit_click] initial_session)))) f = Some m)
     (errors (form (the (run 2026 [Submit_click] initial_session))))"
proof -
  obtain s where run: "run 2026 [Submit_click] initial_session = Some s"
    and nonempty: "errors (form s) \<noteq> []"
    by (simp add: initial_session_def initial_form_state_def handle_submit_def form_errors_def
        List.map_filter_def registered_fields_def field_error_simps empty_values_def
        form_constraints_ok_iff email_type_mismatch_def)
  then have "reachable 2026 s" using reachable_run by blast
  then show ?thesis using reachable_errors_current [of 2026 s] run nonempty by simp
qed

end
