(* ===== verification/Render.thy ===== *)
theory Render
  imports Workflow
begin

text \<open>
  What the components render. A JSX element is an \<open>element\<close>: a tag (a DOM tag or a
  react-bootstrap component name such as \<open>Form.Control\<close>), its props in source order,
  and its children; a text child is \<open>Text\<close>. A prop is a string, a boolean, a style
  object, a component passed as a prop (\<open>as={Row}\<close>) or an event handler, named by the
  expression the source passes. React's \<open>key\<close> props are not part of the rendered output
  and are left out. \<open>{...register(name, options)}\<close> spreads the field's \<open>name\<close> and its
  \<open>onChange\<close>/\<open>onBlur\<close> handlers (and a ref, not modelled).
  \<^item> \<open>render_registration_form\<close> is the JSX of \<open>RegistrationForm\<close> (lines 51--291), given the
    current year (\<open>new Date().getFullYear()\<close>, line 186) and the component's state;
  \<^item> \<open>render_header\<close> is \<open>Header\<close> (Header.jsx) and \<open>render_app\<close> is \<open>App\<close> (App.jsx);
  \<^item> \<open>views\<close> reads back, for every form control, its name, its \<open>isInvalid\<close> flag and the
    text of the feedback element that follows it; \<open>alerts\<close> collects the alerts shown.
\<close>

section \<open>Elements\<close>

datatype prop_value = PStr js_string | PBool bool | PStyle "(js_string \<times> js_string) list"
  | PComp js_string | PHandler js_string

datatype element = Elem js_string "(js_string \<times> prop_value) list" "element list" | Text js_string

definition register_props :: "field \<Rightarrow> (js_string \<times> prop_value) list" where
  "register_props f =
     [(''name'', PStr (field_name f)), (''onChange'', PHandler ''register''),
      (''onBlur'', PHandler ''register'')]"

definition invalid_prop :: "field \<Rightarrow> form_error_list \<Rightarrow> js_string \<times> prop_value" where
  "invalid_prop f errs = (''isInvalid'', PBool (map_of errs f \<noteq> None))"

section \<open>RegistrationForm\<close>

text \<open>Lines 53--60.\<close>

definition form_title :: element where
  "form_title =
     Elem ''Container'' [(''fluid'', PBool True), (''className'', PStr ''registration-form-header'')]
       [Elem ''Row'' [] [Elem ''b'' [] [Text ''Create User Account'']]]"

text \<open>Lines 62--73: \<open>{alertInfo.message && (\<dots>)}\<close>.\<close>

definition alert_part :: "form_state \<Rightarrow> element list" where
  "alert_part st =
     (case banner st of
        None \<Rightarrow> []
      | Some (variant, msg) \<Rightarrow>
          [Elem ''Row'' [] [Elem ''Col'' []
             [Elem ''Alert'' [(''variant'', PStr variant), (''className'', PStr ''mt-4 mobile-alert'')]
                [Text msg]]]])"

text \<open>
  A text input with its label and feedback (lines 79--96, 98--114, 205--221, 223--240,
  242--255): the feedback element is always rendered, holding
  \<open>errors.<name>?.message\<close>.
\<close>

definition text_group :: "js_string \<Rightarrow> js_string \<Rightarrow> field \<Rightarrow> form_error_list \<Rightarrow> element" where
  "text_group label input_type f errs =
     Elem ''Form.Group'' [(''as'', PComp ''Row'')]
       [Elem ''Form.Label'' [] [Text label],
        Elem ''Form.Control'' ([(''type'', PStr input_type)] @ register_props f @ [invalid_prop f errs]) [],
        Elem ''Form.Control.Feedback'' [(''type'', PStr ''invalid'')]
          (case map_of errs f of Some m \<Rightarrow> [Text m] | None \<Rightarrow> [])]"

definition option_elem :: "js_string \<Rightarrow> js_string \<Rightarrow> element" where
  "option_elem v label = Elem ''option'' [(''value'', PStr v)] [Text label]"

text \<open>
  A select in its column (lines 121--142, 143--177, 178--202): the placeholder option with
  the empty value, one option per value, and the feedback only when the field has an
  error (\<open>{errors.<name> && (\<dots>)}\<close>).
\<close>

definition select_col :: "field \<Rightarrow> js_string \<Rightarrow> js_string list \<Rightarrow> form_error_list \<Rightarrow> element" where
  "select_col f placeholder opts errs =
     Elem ''Col'' []
       ([Elem ''Form.Control'' ([(''as'', PStr ''select'')] @ register_props f @ [invalid_prop f errs])
           (option_elem [] placeholder # map (\<lambda>v. option_elem v v) opts)] @
        (case map_of errs f of
           Some m \<Rightarrow> [Elem ''Form.Control.Feedback'' [(''type'', PStr ''invalid'')] [Text m]]
         | None \<Rightarrow> []))"

text \<open>Lines 116--203: the birthdate label and the day, month and year selects.\<close>

definition birthdate_groups :: "int \<Rightarrow> form_error_list \<Rightarrow> element list" where
  "birthdate_groups cy errs =
     [Elem ''Form.Group'' [(''as'', PComp ''Row'')] [Elem ''Form.Label'' [] [Text ''Birthdate'']],
      Elem ''Form.Group'' [(''as'', PComp ''Row'')]
        [select_col Day ''Day'' day_values errs, select_col Month ''Month'' month_values errs,
         select_col Year ''Year'' (year_values cy) errs]]"

text \<open>Lines 258--287: the Cancel button (no handler) and the submit button.\<close>

definition form_buttons :: element where
  "form_buttons =
     Elem ''Container'' [(''fluid'', PBool True), (''style'', PStyle [(''padding'', ''2rem'')])]
       [Elem ''Row'' [(''className'', PStr ''mt-4'')]
         [Elem ''Col'' [(''className'', PStr ''d-flex justify-content-center'')]
           [Elem ''Button'' [(''variant'', PStr ''light''), (''className'', PStr ''me-2 cancel-btn''),
               (''style'', PStyle [(''width'', ''150px''), (''height'', ''46px''), (''marginRight'', ''15px'')])]
              [Text ''Cancel''],
            Elem ''Button'' [(''type'', PStr ''submit''), (''className'', PStr ''submit-btn''),
               (''style'', PStyle [(''width'', ''150px''), (''height'', ''46px'')])]
              [Text ''Submit'']]]]"

definition render_registration_form :: "int \<Rightarrow> form_state \<Rightarrow> element" where
  "render_registration_form cy st =
     Elem ''Fragment'' []
       ([form_title] @ alert_part st @
        [Elem ''Form'' [(''onSubmit'', PHandler ''handleSubmit(onSubmit)'')]
          [Elem ''Container'' [(''fluid'', PBool True), (''className'', PStr ''registration-form-container'')]
             ([text_group ''Full Name'' ''text'' Full_name (errors st),
               text_group ''Contact Number'' ''tel'' Contact_number (errors st)] @
              birthdate_groups cy (errors st) @
              [text_group ''Email Address'' ''email'' Email (errors st),
               text_group ''Password'' ''password'' Password (errors st),
               text_group ''Confirm Password'' ''password'' Confirm_password (errors st)]),
           form_buttons]])"

section \<open>Header and App\<close>

definition render_header :: element where
  "render_header =
     Elem ''Navbar'' [(''bg'', PStr ''dark''), (''data-bs-theme'', PStr ''dark'')]
       [Elem ''Container'' []
         [Elem ''Navbar.Brand'' []
           [Elem ''img'' [(''src'', PStr ''itlogo.png''), (''width'', PStr ''249''), (''height'', PStr ''32''),
              (''className'', PStr ''d-inline-block align-top''), (''alt'', PStr ''React Bootstrap logo'')] []]]]"

definition render_app :: "int \<Rightarrow> form_state \<Rightarrow> element" where
  "render_app cy st =
     Elem ''Fragment'' []
       [render_header, Elem ''div'' [(''className'', PStr ''container'')] [render_registration_form cy st]]"

section \<open>Reading the page\<close>

fun texts :: "element \<Rightarrow> js_string" where
  "texts (Text s) = s"
| "texts (Elem t ps cs) = concat (map texts cs)"

fun control_of :: "element \<Rightarrow> (js_string \<times> bool) option" where
  "control_of (Elem t ps cs) =
     (if t = ''Form.Control'' then
        (case (map_of ps ''name'', map_of ps ''isInvalid'') of
           (Some (PStr n), Some (PBool b)) \<Rightarrow> Some (n, b)
         | _ \<Rightarrow> None)
      else None)"
| "control_of (Text s) = None"

fun feedback_of :: "element list \<Rightarrow> js_string" where
  "feedback_of (Elem t ps cs # rest) = (if t = ''Form.Control.Feedback'' then concat (map texts cs) else [])"
| "feedback_of _ = []"

text \<open>Each control of the page: its name, whether it is shown invalid, and its feedback.\<close>

fun views :: "element \<Rightarrow> (js_string \<times> bool \<times> js_string) list"
  and views_list :: "element list \<Rightarrow> (js_string \<times> bool \<times> js_string) list" where
  "views (Text s) = []"
| "views (Elem t ps cs) = views_list cs"
| "views_list [] = []"
| "views_list (c # rest) =
     (case control_of c of
        Some (n, b) \<Rightarrow> (n, b, feedback_of rest) # views_list rest
      | None \<Rightarrow> views c @ views_list rest)"

fun alerts :: "element \<Rightarrow> (js_string \<times> js_string) list"
  and alerts_list :: "element list \<Rightarrow> (js_string \<times> js_string) list" where
  "alerts (Text s) = []"
| "alerts (Elem t ps cs) =
     (if t = ''Alert'' then
        (case map_of ps ''variant'' of Some (PStr v) \<Rightarrow> [(v, concat (map texts cs))] | _ \<Rightarrow> [])
      else alerts_list cs)"
| "alerts_list [] = []"
| "alerts_list (c # rest) = alerts c @ alerts_list rest"

section \<open>Lemmas\<close>

lemma alerts_options:
  "alerts (option_elem v l) = []"
  "alerts_list (map (\<lambda>v. option_elem v v) vs) = []"
  by (simp add: option_elem_def) (induction vs, simp_all add: option_elem_def)

text \<open>
  C6. The page shows the eight controls in registration order; each is marked invalid exactly
  when the error object has an entry for its field, and its feedback is that entry's
  message (nothing otherwise).
\<close>

theorem page_views:
  "views (render_app cy st) =
     map (\<lambda>f. (field_name f, map_of (errors st) f \<noteq> None,
               case map_of (errors st) f of Some m \<Rightarrow> m | None \<Rightarrow> [])) registered_fields"
  by (simp add: render_app_def render_header_def render_registration_form_def form_title_def
      alert_part_def text_group_def birthdate_groups_def select_col_def form_buttons_def
      register_props_def invalid_prop_def option_elem_def registered_fields_def
      split: option.split prod.split)

text \<open>
  C7. The page shows exactly one alert, with the banner's variant and text, when the banner
  condition holds, and none otherwise.
\<close>

theorem page_alerts:
  "alerts (render_app cy st) = (case banner st of Some vm \<Rightarrow> [vm] | None \<Rightarrow> [])"
  by (simp add: render_app_def render_header_def render_registration_form_def form_title_def
      alert_part_def text_group_def birthdate_groups_def select_col_def form_buttons_def
      register_props_def invalid_prop_def alerts_options
      split: option.split prod.split)

end
