(* ===== verification/Spec2Isabelle.thy ===== *)
theory Spec2Isabelle
  imports Render
begin

text \<open>
  \<^bold>\<open>A verification development of the user-registration form.\<close>

  The program (src/src) is a React single-page application. \<open>App.jsx\<close> renders a
  \<open>Header\<close> (a static navigation bar, \<open>Header.jsx\<close>) and the \<open>RegistrationForm\<close>
  component (\<open>components/RegistrationForm.jsx\<close>), which holds all of the behaviour: it
  registers eight fields with react-hook-form (\<open>register(name, options)\<close>, lines 83--249),
  lets \<open>handleSubmit\<close> validate them, and its \<open>onSubmit\<close> handler (lines 17--49) composes
  the date of birth, builds the request body, POSTs it with axios and turns the response
  into the \<open>alertInfo\<close> state that the banner (lines 62--73) renders.

  \<^bold>\<open>Theories.\<close>
  \<^item> \<open>Prelude\<close>: the theorem collections \<open>rx_eval\<close> and \<open>form_eval\<close> (definitions unfolded to
    evaluate a pattern or a form scenario on concrete strings), the model's basic types
    (\<open>js_string\<close> = one \<open>char\<close> per UTF-16 code unit, \<open>js_object\<close> = property list in creation
    order) and generic facts on characters and lists.
  \<^item> \<open>JsLib\<close>: the JavaScript runtime operations the handler calls, from ECMA-262:
    \<open>padStart\<close> (\<open>pad_start\<close>), number printing (\<open>nat_str\<close>, \<open>int_str\<close>), string truthiness,
    property get/set/delete (\<open>obj_get\<close>, \<open>obj_set\<close>, \<open>obj_delete\<close>), and a decimal parser used
    to state round trips.
  \<^item> \<open>JsRegex\<close>: the ECMAScript regular-expression engine for the constructs the form's four
    literals use: a continuation-passing backtracking matcher \<open>rmatch\<close> (the spec's
    Matcher closures, RepeatMatcher's empty check, CharacterSetMatcher with the
    \<open>i\<close>-flag Canonicalize), the search loop of RegExpBuiltinExec (\<open>regexp_exec_from\<close>) and
    \<open>RegExp.prototype.test\<close> (\<open>regexp_test\<close>). It is proved equal to a declarative
    relation \<open>consumes\<close> (\<open>rmatch_iff\<close>), which the pattern proofs use.
  \<^item> \<open>FormRules\<close>: the \<open>register\<close> options of every field as \<open>register_options\<close> records with
    the source's messages, the four pattern literals as \<open>rexp\<close> values, the confirmation's
    \<open>validate\<close> callback, and the option values of the three selects (lines 127--195).
    Its lemmas characterise the language of each pattern in plain terms.
  \<^item> \<open>HookForm\<close>: the part of react-hook-form the form relies on, written from the
    library's documented behaviour: \<open>validate_field\<close> (required, then pattern on a
    non-empty value, then validate), the error object \<open>form_errors\<close> of \<open>handleSubmit\<close>, and
    re-validation of one field on change after a submit.
  \<^item> \<open>Submit\<close>: the component's state (\<open>form_state\<close>: values, errors, submitted flag,
    \<open>alertInfo\<close>), the request body (\<open>date_of_birth\<close>, \<open>post_data\<close>), the handler split at its
    \<open>await\<close> (\<open>on_submit_begin\<close>; \<open>try_block\<close>, \<open>catch_block\<close>, \<open>on_settled\<close>), \<open>handle_submit\<close> and
    \<open>settle\<close> for \<open>handleSubmit(onSubmit)\<close>, \<open>edit_field\<close>, the \<open>banner\<close>, and the submitter's
    abstract contract \<open>submit_spec\<close> from the specification. A \<open>TypeError\<close> thrown inside
    the \<open>catch\<close> block is the \<open>Inl\<close> of \<open>on_settled\<close>.
  \<^item> \<open>Browser\<close>: what the browser does with the controls, from the HTML standard: value
    sanitisation by input type (\<open>dom_value\<close>), the valid e-mail address grammar
    (\<open>valid_email_address\<close>), the type mismatch of the \<open>type='email'\<close> input (line 208)
    and interactive validation of the form (\<open>form_constraints_ok\<close>), which cancels the
    submit event, so that \<open>handleSubmit\<close> never runs, while a control is invalid.
  \<^item> \<open>Workflow\<close>: sessions (the form state and the requests in flight), events (edit a
    field, click submit, settle request \<open>i\<close> with an outcome), the step function
    \<open>sys_step\<close> composing the browser and the component, runs, and the inductive
    \<open>reachable\<close>; requests may settle in any order.
  \<^item> \<open>Render\<close>: what the components render, as element trees with the source's tags and
    props: \<open>render_registration_form\<close> (the JSX of lines 51--291), \<open>render_header\<close>
    (Header.jsx) and \<open>render_app\<close> (App.jsx, composing the two); \<open>views\<close> and \<open>alerts\<close>
    read back the controls (name, \<open>isInvalid\<close>, feedback) and the alerts of a page.
  \<^item> this theory: the specification's end-to-end scenarios, evaluated through \<open>run\<close>
    on fixed entries to illustrate the findings (they are not properties).

  \<^bold>\<open>What is proved.\<close>
  \<^item> the engine: \<open>rmatch\<close> decides \<open>consumes\<close>; the search loop finds a match iff some
    suffix matches; anchored patterns match iff the whole string is consumed;
  \<^item> the patterns: full name = non-empty string of ASCII letters and spaces (the \<open>i\<close> flag is
    redundant); phone number = the three digit groups with optional parentheses and
    separators (the parentheses are independent, so \<open>(416555-0199\<close> passes); email = one
    \<open>@\<close> and a later dot, non-space around them; password = eight or more ASCII letters and
    digits with a lower case letter, an upper case letter and a digit;
  \<^item> validation: when the form validates; required messages; the confirmation's dependence
    on the live password;
  \<^item> submission: an invalid form sends nothing and leaves the previous banner; a valid one
    clears the banner and sends exactly \<open>post_data\<close> of its values (which includes
    \<open>confirm_password\<close>); the date of birth round-trips through a decimal parser; the
    handler refines the submitter's contract except for an error response with a
    \<open>null\<close> body, where the \<open>catch\<close> block throws and no banner appears;
  \<^item> the workflow (invariants of reachable sessions, by rule induction): every request in
    flight was built from a valid form whose selects hold option values, and carries a
    valid e-mail address of the HTML standard; every error entry but the confirmation's is
    current for the present values, and the confirmation's can go stale;
  \<^item> the browser and the pattern: on the addresses the browser accepts, the form's email
    pattern rejects exactly those without a dot after the \<open>@\<close> (\<open>jane@localhost\<close>), the
    only addresses for which a submit shows \<open>Invalid email format\<close>;
  \<^item> the page: App's page shows each control invalid exactly when its field has an error,
    with that error's message, and shows the alert exactly when the banner condition holds;
  \<^item> bounds: the year select offers 100 distinct four-digit years ending at the current
    year.

  \<^bold>\<open>Bounds.\<close> There is no fuel. The search loop \<open>regexp_exec_from\<close> is a
  \<open>partial_function (option)\<close> proved to return on every pattern and input
  (\<open>regexp_exec_from_iff\<close>, by induction on the remaining length);
  every other function is total (\<open>rmatch\<close> terminates by the
  lexicographic measure of the pattern's size, the remaining minimum count of a
  quantifier and the length of the input). Characters are Latin-1 code units 0--255 (the
  type \<open>char\<close>); every character of the patterns and of the form's messages is in that
  range, and case folding is the non-Unicode Canonicalize restricted to it. The current
  year \<open>cy\<close> is a parameter; the date round trip assumes 1099 \<le> cy \<le> 9999 so that all
  offered years have four digits.

  \<^bold>\<open>Not modelled.\<close> React's reconciliation, refs, the DOM and the CSS are not
  modelled: a page is the element tree the components return, without React's \<open>key\<close>
  props. The Cancel button has no handler (react-bootstrap's \<open>Button\<close> defaults to
  \<open>type='button'\<close>), so clicking it is not an event of the workflow; the HTTP exchange is abstracted to its outcome (2xx, error response,
  no response) and the parsed body's \<open>description\<close>. Characters beyond Latin-1, and
  regular-expression features the form does not use (captures, backreferences, Unicode
  mode), are outside the engine model. Of the browser, only what decides whether the
  submit event fires and which value a control reports is modelled: how it displays its
  own validation message is not, nor the conversion of internationalised domain names
  some user agents apply to an email input. Pressing Enter in a field submits the form the
  same way as the button (\<open>Submit_click\<close>).
\<close>

section \<open>Scenarios\<close>

text \<open>
  The end-to-end scenarios of the specification, run through \<open>run\<close> on the entries of
  scenario A. They are evaluations on fixed inputs that illustrate the findings; the
  properties they instantiate are those of the component theories.
\<close>

definition sample_entries :: "event list" where
  "sample_entries =
     [Edit Full_name ''Jane Doe'', Edit Contact_number ''(416) 555-0199'', Edit Day ''15'',
      Edit Month ''06'', Edit Year ''1990'', Edit Email ''jane@example.com'',
      Edit Password ''Abcdef12'', Edit Confirm_password ''Abcdef12'']"

lemmas scenario_eval = sample_entries_def initial_session_def allowed_value_def form_eval rx_eval
  form_errors_Nil_iff registered_fields_def field_error_simps sample_select_values

text \<open>
  Scenario A: valid entries are sent with the date of birth \<open>1990-06-15\<close>; a 200 response
  with description \<open>User created\<close> shows that success message and clears the form.
\<close>

lemma scenario_A:
  "\<exists>s1 s2. run 2026 (sample_entries @ [Submit_click]) initial_session = Some s1 \<and>
     map (\<lambda>p. obj_get p ''date_of_birth'') (inflight s1) = [Some ''1990-06-15''] \<and>
     sys_step 2026 (Settle 0 (Http_ok (Body_object (Some ''User created'')))) s1 = Some s2 \<and>
     banner (form s2) = Some (''success'', ''User created'') \<and>
     field_values (form s2) = empty_values \<and> inflight s2 = []"
  by (simp add: scenario_eval del: set_map)

text \<open>
  Scenario B in a browser: \<open>not-an-email\<close> is not a valid e-mail address, so the click
  on the submit button is cancelled by the browser's constraint validation of the
  \<open>type='email'\<close> input: nothing is sent, the banner stays empty and the form shows no
  error at all (the browser reports the problem itself). \<open>Invalid email format\<close> appears
  on submit only for an address the browser accepts and the pattern does not, such as
  \<open>jane@localhost\<close>.
\<close>

lemma scenario_B:
  "\<exists>s. run 2026 (sample_entries @ [Edit Email ''not-an-email'', Submit_click]) initial_session = Some s \<and>
     inflight s = [] \<and> banner (form s) = None \<and> errors (form s) = []"
  by (simp add: scenario_eval del: set_map)

lemma scenario_B_localhost:
  "\<exists>s. run 2026 (sample_entries @ [Edit Email ''jane@localhost'', Submit_click]) initial_session = Some s \<and>
     inflight s = [] \<and> banner (form s) = None \<and>
     map_of (errors (form s)) Email = Some ''Invalid email format''"
  by (simp add: scenario_eval form_errors_def List.map_filter_def del: set_map)

text \<open>
  Scenario C: a network failure with no response shows \<open>An error occurred\<close> as a failure
  and keeps the values.
\<close>

lemma scenario_C:
  "\<exists>s. run 2026 (sample_entries @ [Submit_click, Settle 0 No_response]) initial_session = Some s \<and>
     banner (form s) = Some (''danger'', ''An error occurred'') \<and>
     field_values (form s) Email = ''jane@example.com'' \<and> inflight s = []"
  by (simp add: scenario_eval del: set_map)

text \<open>
  A double click sends the registration twice; when the first request succeeds and the
  duplicate then fails, the form has been cleared by the success but the banner shows the
  duplicate's failure.
\<close>

lemma scenario_double_submit:
  "\<exists>s. run 2026 (sample_entries @ [Submit_click, Submit_click,
        Settle 0 (Http_ok (Body_object (Some ''User created''))),
        Settle 0 (Http_error (Body_object (Some ''Email already exists'')))]) initial_session = Some s \<and>
     field_values (form s) = empty_values \<and>
     banner (form s) = Some (''danger'', ''Email already exists'')"
  by (simp add: scenario_eval del: set_map)

text \<open>
  After a submit that reported mismatching passwords, changing the password to match the
  confirmation leaves the confirmation's error in place: only the edited field is
  validated again, so the page keeps showing that the passwords do not match.
\<close>

lemma scenario_stale_confirmation:
  "\<exists>s. run 2026 (sample_entries @ [Edit Confirm_password ''Abcdef13'', Submit_click,
        Edit Password ''Abcdef13'']) initial_session = Some s \<and>
     field_values (form s) Confirm_password = field_values (form s) Password \<and>
     map_of (errors (form s)) Confirm_password = Some ''The passwords do not match''"
  by (simp add: scenario_eval form_errors_def List.map_filter_def revalidate_def set_field_error_def
      Let_def del: set_map)

end
